theory Spec2Isabelle
  imports Complex_Main
begin

section \<open>Values, errors and documents\<close>

text \<open>
  A date is the time value of a valid JavaScript \<open>Date\<close>: milliseconds since the epoch.
  An invalid date (time value NaN) is the absence of such a value.
\<close>

type_synonym date = int

text \<open>
  The values a parsed JSON request body can hold. An absent property (\<open>undefined\<close>) is
  \<open>None\<close> at the place where the property is read.
\<close>

datatype jsval =
    JNull
  | JBool bool
  | JNum rat
  | JStr string
  | JArr "jsval list"
  | JObj "(string \<times> jsval) list"

type_synonym body = "string \<Rightarrow> jsval option"

text \<open>
  What a function of the program can throw: the application's \<open>ThrowError\<close> with its
  status code, title and message, the \<open>BSONError\<close> of the ObjectId constructor, and a
  fault reported by the document store.
\<close>

datatype exn =
    ThrowError (code: int) (title: string) (message: string)
  | BSONError
  | MongoServerError

text \<open>
  \<open>ProjectProps\<close> of \<open>project.model.ts\<close>. The validator builds the object field by field
  from \<open>{}\<close>, so the fields it may leave unset are optional here; \<open>mongo_id\<close> is the
  \<open>_id\<close> field (the ObjectId in its 24 character lower-case hexadecimal form).
\<close>

record ProjectProps =
  mongo_id :: "string option"
  name :: string
  clientName :: string
  status :: string
  description :: "string option"
  startDate :: date
  endDate :: "date option"
  createdAt :: date
  updatedAt :: "date option"

record ProjectListItem =
  item_id :: string
  item_name :: string
  item_clientName :: string
  item_status :: string
  item_startDate :: date
  item_endDate :: "date option"
  item_createdAt :: date

record ProjectDetails =
  det_id :: string
  det_name :: string
  det_clientName :: string
  det_status :: string
  det_description :: "string option"
  det_startDate :: date
  det_endDate :: "date option"
  det_createdAt :: date
  det_updatedAt :: "date option"

text \<open>
  The \<open>projects\<close> collection: its documents in insertion order. Every document held by
  the collection carries an \<open>_id\<close>, which the store assigns on insertion.
\<close>

type_synonym collection = "ProjectProps list"

section \<open>ObjectId\<close>

text \<open>
  The ObjectId constructor on a string accepts exactly 24 hexadecimal digits and throws
  otherwise; \<open>ObjectId.isValid\<close> runs the constructor and reports whether it threw.
  Two spellings that differ in letter case denote the same identifier. (The form of 12
  raw characters, which older releases of the library also accept, is not modelled.)
\<close>

definition is_hex :: "char \<Rightarrow> bool" where
  "is_hex c = (c \<in> set ''0123456789abcdefABCDEF'')"

definition hex_lower :: "char \<Rightarrow> char" where
  "hex_lower c =
     (if c = CHR ''A'' then CHR ''a'' else if c = CHR ''B'' then CHR ''b''
      else if c = CHR ''C'' then CHR ''c'' else if c = CHR ''D'' then CHR ''d''
      else if c = CHR ''E'' then CHR ''e'' else if c = CHR ''F'' then CHR ''f''
      else c)"

definition ObjectId_new :: "string \<Rightarrow> exn + string" where
  "ObjectId_new s =
     (if length s = 24 \<and> list_all is_hex s then Inr (map hex_lower s) else Inl BSONError)"

definition ObjectId_isValid :: "string \<Rightarrow> bool" where
  "ObjectId_isValid s = (case ObjectId_new s of Inr _ \<Rightarrow> True | Inl _ \<Rightarrow> False)"

section \<open>The collection's operations\<close>

definition has_id :: "string \<Rightarrow> ProjectProps \<Rightarrow> bool" where
  "has_id oid d = (mongo_id d = Some oid)"

definition findOne :: "collection \<Rightarrow> string \<Rightarrow> ProjectProps option" where
  "findOne c oid = find (has_id oid) c"

text \<open>\<open>countDocuments({_id}, {limit: 1})\<close>: the count stops at one.\<close>

definition countDocuments_limit1 :: "collection \<Rightarrow> string \<Rightarrow> nat" where
  "countDocuments_limit1 c oid = min 1 (length (filter (has_id oid) c))"

text \<open>\<open>deleteOne\<close> removes the first matching document and reports \<open>deletedCount\<close>.\<close>

fun deleteOne :: "collection \<Rightarrow> string \<Rightarrow> nat \<times> collection" where
  "deleteOne [] oid = (0, [])"
| "deleteOne (d # ds) oid =
     (if has_id oid d then (1, ds)
      else (case deleteOne ds oid of (n, ds') \<Rightarrow> (n, d # ds')))"

text \<open>
  \<open>updateOne\<close> with \<open>$set: {status, updatedAt}\<close> rewrites the first matching document;
  \<open>modifiedCount\<close> is 1 only when the document changed.
\<close>

fun updateOne_set :: "collection \<Rightarrow> string \<Rightarrow> string \<Rightarrow> date \<Rightarrow> nat \<times> collection" where
  "updateOne_set [] oid st now = (0, [])"
| "updateOne_set (d # ds) oid st now =
     (if has_id oid d
      then (let d' = d\<lparr>status := st, updatedAt := Some now\<rparr>
            in ((if d' = d then 0 else 1), d' # ds))
      else (case updateOne_set ds oid st now of (n, ds') \<Rightarrow> (n, d # ds')))"

text \<open>
  \<open>insertOne\<close>: the driver gives the document the identifier \<open>fresh\<close> unless it has one
  already; the store refuses an identifier that is already taken.
\<close>

definition insertOne :: "string \<Rightarrow> collection \<Rightarrow> ProjectProps \<Rightarrow> (exn + string) \<times> collection" where
  "insertOne fresh c data =
     (let oid = (case mongo_id data of Some i \<Rightarrow> i | None \<Rightarrow> fresh)
      in if list_ex (has_id oid) c then (Inl MongoServerError, c)
         else (Inr oid, c @ [data\<lparr>mongo_id := Some oid\<rparr>]))"

section \<open>ProjectRepository: operations that take an id\<close>

definition to_details :: "ProjectProps \<Rightarrow> ProjectDetails" where
  "to_details data =
     \<lparr>det_id = the (mongo_id data), det_name = name data,
      det_clientName = clientName data, det_status = status data,
      det_description = description data, det_startDate = startDate data,
      det_endDate = endDate data, det_createdAt = createdAt data,
      det_updatedAt = updatedAt data\<rparr>"

definition getProjectDataById :: "collection \<Rightarrow> string \<Rightarrow> exn + ProjectDetails option" where
  "getProjectDataById c id' =
     (case ObjectId_new id' of
        Inl e \<Rightarrow> Inl e
      | Inr oid \<Rightarrow>
          (case findOne c oid of
             None \<Rightarrow> Inr None
           | Some data \<Rightarrow> Inr (Some (to_details data))))"

definition getProjectExistanceById :: "collection \<Rightarrow> string \<Rightarrow> exn + bool" where
  "getProjectExistanceById c id' =
     (if \<not> ObjectId_isValid id' then Inr False
      else (case ObjectId_new id' of
              Inl e \<Rightarrow> Inl e
            | Inr oid \<Rightarrow> Inr (countDocuments_limit1 c oid > 0)))"

definition deleteProjectById :: "collection \<Rightarrow> string \<Rightarrow> (exn + bool) \<times> collection" where
  "deleteProjectById c id' =
     (case ObjectId_new id' of
        Inl e \<Rightarrow> (Inl e, c)
      | Inr oid \<Rightarrow> (case deleteOne c oid of (n, c') \<Rightarrow> (Inr (n = 1), c')))"

definition Repository_updateProjectStatusById ::
  "date \<Rightarrow> collection \<Rightarrow> string \<Rightarrow> string \<Rightarrow> (exn + bool) \<times> collection" where
  "Repository_updateProjectStatusById now c id' st =
     (case ObjectId_new id' of
        Inl e \<Rightarrow> (Inl e, c)
      | Inr oid \<Rightarrow> (case updateOne_set c oid st now of (n, c') \<Rightarrow> (Inr (n = 1), c')))"

section \<open>ProjectService: operations that take an id\<close>

definition projectDeatilsById :: "collection \<Rightarrow> string \<Rightarrow> exn + ProjectDetails" where
  "projectDeatilsById c id' =
     (if \<not> ObjectId_isValid id' then Inl (ThrowError 400 ''VALIDTION_ERROR'' ''Invalid id'')
      else (case getProjectDataById c id' of
              Inl e \<Rightarrow> Inl e
            | Inr None \<Rightarrow> Inl (ThrowError 404 ''NOT_FOUND'' ''Project not found'')
            | Inr (Some data) \<Rightarrow> Inr data))"

text \<open>
  The two awaited repository calls of \<open>removeProjectById\<close> and
  \<open>updateProjectStatusById\<close> are separate store operations. \<open>others\<close> is what the
  requests served in between do to the collection (the identity when there are none).
\<close>

definition removeProjectById ::
  "(collection \<Rightarrow> collection) \<Rightarrow> collection \<Rightarrow> string \<Rightarrow> (exn + unit) \<times> collection" where
  "removeProjectById others c id' =
     (if \<not> ObjectId_isValid id' then (Inl (ThrowError 400 ''VALIDTION_ERROR'' ''Invalid id''), c)
      else (case getProjectExistanceById c id' of
              Inl e \<Rightarrow> (Inl e, c)
            | Inr projectExists \<Rightarrow>
                if \<not> projectExists then (Inl (ThrowError 404 ''NOT_FOUND'' ''Project not found''), c)
                else (case deleteProjectById (others c) id' of
                        (Inl e, c') \<Rightarrow> (Inl e, c')
                      | (Inr result, c') \<Rightarrow>
                          if \<not> result
                          then (Inl (ThrowError 500 ''FAILURE'' ''Failed to delete project''), c')
                          else (Inr (), c'))))"

section \<open>JavaScript values in conditions\<close>

text \<open>\<open>!v\<close> is the negation of \<open>truthy v\<close>; \<open>None\<close> is \<open>undefined\<close>.\<close>

fun truthy :: "jsval option \<Rightarrow> bool" where
  "truthy None = False"
| "truthy (Some JNull) = False"
| "truthy (Some (JBool b)) = b"
| "truthy (Some (JNum r)) = (r \<noteq> 0)"
| "truthy (Some (JStr s)) = (s \<noteq> [])"
| "truthy (Some (JArr xs)) = True"
| "truthy (Some (JObj kvs)) = True"

fun typeof :: "jsval option \<Rightarrow> string" where
  "typeof None = ''undefined''"
| "typeof (Some JNull) = ''object''"
| "typeof (Some (JBool b)) = ''boolean''"
| "typeof (Some (JNum r)) = ''number''"
| "typeof (Some (JStr s)) = ''string''"
| "typeof (Some (JArr xs)) = ''object''"
| "typeof (Some (JObj kvs)) = ''object''"

text \<open>The characters of a value that \<open>typeof\<close> has shown to be a string.\<close>

fun str :: "jsval option \<Rightarrow> string" where
  "str (Some (JStr s)) = s"
| "str _ = []"

text \<open>
  \<open>String.prototype.trim\<close> is a parameter \<open>trim\<close> of the validator: which characters
  count as white space depends on how the text is encoded, and nothing is assumed of it.
\<close>

text \<open>\<open>Array.prototype.includes\<close> on an array of strings: no coercion of the argument.\<close>

fun Array_includes :: "string list \<Rightarrow> jsval option \<Rightarrow> bool" where
  "Array_includes xs (Some (JStr s)) = (s \<in> set xs)"
| "Array_includes xs _ = False"

definition ALLOWED_STATUSES :: "string list" where
  "ALLOWED_STATUSES = [''active'', ''on_hold'', ''completed'']"

text \<open>
  \<open>new Date(v)\<close> is a parameter \<open>new_Date\<close> of the validator: it gives the time value
  of the date constructed from \<open>v\<close>, or \<open>None\<close> when the date is invalid
  (\<open>isNaN(d.getTime())\<close>). The date constructed from \<open>undefined\<close> is invalid.
\<close>

definition Date_of :: "(jsval \<Rightarrow> date option) \<Rightarrow> jsval option \<Rightarrow> date option" where
  "Date_of new_Date v = (case v of None \<Rightarrow> None | Some x \<Rightarrow> new_Date x)"

section \<open>ProjectValidator.createProject\<close>

definition validation_error :: "string \<Rightarrow> exn" where
  "validation_error msg = ThrowError 400 ''VALIDATION_ERROR'' msg"

text \<open>
  The checks run in the order of the source and the first one that fails throws.
  \<open>now\<close> is the value of \<open>new Date()\<close> taken for \<open>createdAt\<close>.
\<close>

definition Validator_createProject ::
  "(string \<Rightarrow> string) \<Rightarrow> (jsval \<Rightarrow> date option) \<Rightarrow> date \<Rightarrow> body \<Rightarrow> exn + ProjectProps" where
  "Validator_createProject trim new_Date now data =
     (let clientName' = data ''clientName''; name' = data ''name'';
          description' = data ''description''; status' = data ''status'';
          startDate' = data ''startDate''; endDate' = data ''endDate''
      in
      if \<not> truthy clientName' \<or> typeof clientName' \<noteq> ''string'' \<or> trim (str clientName') = []
      then Inl (validation_error ''Client name is required'')
      else if \<not> truthy name' \<or> typeof name' \<noteq> ''string'' \<or> trim (str name') = []
      then Inl (validation_error ''Project name is required'')
      else if description' \<noteq> None \<and>
              (typeof description' \<noteq> ''string'' \<or> trim (str description') = [])
      then Inl (validation_error ''Description must be a non-empty string if provided'')
      else if \<not> truthy status' \<or> \<not> Array_includes ALLOWED_STATUSES status'
      then Inl (validation_error ''Invalid or missing project status'')
      else if \<not> truthy startDate'
      then Inl (validation_error ''Start date is required'')
      else
        (case Date_of new_Date startDate' of
           None \<Rightarrow> Inl (validation_error ''Start date must be a valid ISO date'')
         | Some parsedStart \<Rightarrow>
             (let validatedBody =
                    \<lparr>mongo_id = None, name = trim (str name'),
                     clientName = trim (str clientName'), status = str status',
                     description =
                       (if description' \<noteq> None then Some (trim (str description')) else None),
                     startDate = parsedStart, endDate = None, createdAt = now,
                     updatedAt = None\<rparr>
              in
              if endDate' \<noteq> None
              then (case Date_of new_Date endDate' of
                      None \<Rightarrow> Inl (validation_error ''End date must be a valid ISO date'')
                    | Some parsedEnd \<Rightarrow>
                        if parsedEnd < parsedStart
                        then Inl (validation_error ''End date cannot be before start date'')
                        else Inr (validatedBody\<lparr>endDate := Some parsedEnd\<rparr>))
              else Inr validatedBody)))"

section \<open>Creating a project\<close>

definition Repository_createProject ::
  "string \<Rightarrow> collection \<Rightarrow> ProjectProps \<Rightarrow> (exn + ProjectProps) \<times> collection" where
  "Repository_createProject fresh c data =
     (case insertOne fresh c data of
        (Inl e, c') \<Rightarrow> (Inl e, c')
      | (Inr insertedId, c') \<Rightarrow> (Inr (data\<lparr>mongo_id := Some insertedId\<rparr>), c'))"

definition Service_createProject ::
  "(string \<Rightarrow> string) \<Rightarrow> (jsval \<Rightarrow> date option) \<Rightarrow> date \<Rightarrow> string \<Rightarrow> collection \<Rightarrow> body
     \<Rightarrow> (exn + ProjectProps) \<times> collection" where
  "Service_createProject trim new_Date now fresh c data =
     (case Validator_createProject trim new_Date now data of
        Inl e \<Rightarrow> (Inl e, c)
      | Inr validatedBody \<Rightarrow>
          (case Repository_createProject fresh c validatedBody of
             (Inl e, c') \<Rightarrow> (Inl e, c')
           | (Inr result, c') \<Rightarrow>
               if mongo_id result = None \<or> mongo_id result = Some []
               then (Inl (ThrowError 500 ''FAILURE'' ''Failed to create project''), c')
               else (Inr result, c')))"

section \<open>Updating the status\<close>

definition Service_updateProjectStatusById ::
  "date \<Rightarrow> (collection \<Rightarrow> collection) \<Rightarrow> collection \<Rightarrow> string \<Rightarrow> jsval option
     \<Rightarrow> (exn + unit) \<times> collection" where
  "Service_updateProjectStatusById now others c id' status' =
     (if \<not> ObjectId_isValid id' then (Inl (ThrowError 400 ''VALIDTION_ERROR'' ''Invalid id''), c)
      else if \<not> truthy status' \<or> \<not> Array_includes ALLOWED_STATUSES status'
      then (Inl (ThrowError 400 ''VALIDATION_ERROR'' ''Invalid or missing project status''), c)
      else (case getProjectExistanceById c id' of
              Inl e \<Rightarrow> (Inl e, c)
            | Inr projectExists \<Rightarrow>
                if \<not> projectExists then (Inl (ThrowError 404 ''NOT_FOUND'' ''Project not found''), c)
                else (case Repository_updateProjectStatusById now (others c) id' (str status') of
                        (Inl e, c') \<Rightarrow> (Inl e, c')
                      | (Inr result, c') \<Rightarrow>
                          if \<not> result
                          then (Inl (ThrowError 500 ''FAILURE''
                                       ''Failed to update status of a  project''), c')
                          else (Inr (), c'))))"

section \<open>Listing projects\<close>

text \<open>
  Page numbers, limits and counts are whole numbers: the model covers the integer values
  of JavaScript's numbers. A value that is not finite (\<open>Infinity\<close> or NaN, both of which
  the response serialises as \<open>null\<close>) is \<open>None\<close>.
\<close>

text \<open>\<open>Math.ceil(total / limit)\<close>; dividing by zero gives no finite number.\<close>

definition Math_ceil_div :: "int \<Rightarrow> int \<Rightarrow> int option" where
  "Math_ceil_div total' limit' =
     (if limit' = 0 then None else Some (- ((- total') div limit')))"

text \<open>
  The filter object: the optional \<open>status\<close> equality and the optional \<open>$or\<close> of two
  case-insensitive \<open>$regex\<close> matches, on \<open>name\<close> and on \<open>clientName\<close>, of one pattern.
\<close>

record filter_obj =
  filter_status :: "string option"
  filter_or_regex :: "string option"

text \<open>The sort option: the one field set in the object, with its order 1 or -1.\<close>

type_synonym sortOption = "string \<times> int"

record pagination =
  pg_total :: int
  pg_page :: int
  pg_limit :: int
  pg_totalPages :: "int option"

record list_result =
  res_data :: "ProjectListItem list"
  res_pagination :: pagination

text \<open>
  The store's regular expressions are a parameter \<open>regex\<close>: a pattern compiles to a
  matcher on strings (case-insensitive, option \<open>i\<close>), or the store rejects it.
\<close>

definition find_filter ::
  "(string \<Rightarrow> (string \<Rightarrow> bool) option) \<Rightarrow> filter_obj \<Rightarrow> (ProjectProps \<Rightarrow> bool) option" where
  "find_filter regex f =
     (let status_ok = (\<lambda>d. case filter_status f of None \<Rightarrow> True | Some s \<Rightarrow> status d = s)
      in case filter_or_regex f of
           None \<Rightarrow> Some status_ok
         | Some pat \<Rightarrow>
             (case regex pat of
                None \<Rightarrow> None
              | Some m \<Rightarrow> Some (\<lambda>d. status_ok d \<and> (m (name d) \<or> m (clientName d)))))"

text \<open>
  The key a document is sorted on. Only \<open>createdAt\<close> and \<open>startDate\<close> reach the store;
  on any other field in this model all documents compare equal.
\<close>

definition sort_field :: "string \<Rightarrow> ProjectProps \<Rightarrow> int" where
  "sort_field field d =
     (if field = ''createdAt'' then createdAt d
      else if field = ''startDate'' then startDate d
      else 0)"

definition cursor_sort :: "sortOption \<Rightarrow> collection \<Rightarrow> collection" where
  "cursor_sort so ds = sort_key (\<lambda>d. snd so * sort_field (fst so) d) ds"

text \<open>The store refuses a negative skip.\<close>

definition cursor_skip :: "int \<Rightarrow> collection \<Rightarrow> exn + collection" where
  "cursor_skip n ds = (if n < 0 then Inl MongoServerError else Inr (drop (nat n) ds))"

text \<open>A limit of 0 is no limit; a negative limit is taken by its absolute value.\<close>

definition cursor_limit :: "int \<Rightarrow> collection \<Rightarrow> collection" where
  "cursor_limit n ds = (if n = 0 then ds else take (nat \<bar>n\<bar>) ds)"

definition to_item :: "ProjectProps \<Rightarrow> ProjectListItem" where
  "to_item project =
     \<lparr>item_id = the (mongo_id project), item_name = name project,
      item_clientName = clientName project, item_status = status project,
      item_startDate = startDate project, item_endDate = endDate project,
      item_createdAt = createdAt project\<rparr>"

definition Repository_listProjects ::
  "(string \<Rightarrow> (string \<Rightarrow> bool) option) \<Rightarrow> collection \<Rightarrow> filter_obj \<Rightarrow> sortOption \<Rightarrow> int \<Rightarrow> int
     \<Rightarrow> exn + (ProjectListItem list \<times> int)" where
  "Repository_listProjects regex c f so skip limit' =
     (case find_filter regex f of
        None \<Rightarrow> Inl MongoServerError
      | Some matches \<Rightarrow>
          (case cursor_skip skip (cursor_sort so (filter matches c)) of
             Inl e \<Rightarrow> Inl e
           | Inr skipped \<Rightarrow>
               (let projectsRaw = cursor_limit limit' skipped;
                    total' = int (length (filter matches c))
                in Inr (map to_item projectsRaw, total'))))"

definition truthy_string :: "string option \<Rightarrow> bool" where
  "truthy_string v = (case v of None \<Rightarrow> False | Some s \<Rightarrow> s \<noteq> [])"

definition allowedSortFields :: "string list" where
  "allowedSortFields = [''createdAt'', ''startDate'']"

text \<open>
  The sort option the service builds from the sort token: \<open>sort.startsWith("-")\<close>
  selects the order, and \<open>sort.replace("-", "")\<close> (which removes the first \<open>-\<close> of the
  token, wherever it stands) gives the field.
\<close>

definition sort_option_of :: "string option \<Rightarrow> exn + sortOption" where
  "sort_option_of sort' =
     (if truthy_string sort'
      then (let s = the sort';
                order = (if take 1 s = ''-'' then - 1 else 1);
                field = remove1 (CHR ''-'') s
            in if field \<in> set allowedSortFields then Inr (field, order)
               else Inl (ThrowError 400 ''Invalid Sort Field''
                           ''Sorting not allowed on this field''))
      else Inr (''createdAt'', - 1))"

definition filter_of :: "string option \<Rightarrow> string option \<Rightarrow> filter_obj" where
  "filter_of status' search' =
     \<lparr>filter_status = (if truthy_string status' then status' else None),
      filter_or_regex = (if truthy_string search' then search' else None)\<rparr>"

definition Service_listProjects ::
  "(string \<Rightarrow> (string \<Rightarrow> bool) option) \<Rightarrow> collection \<Rightarrow> int \<Rightarrow> int
     \<Rightarrow> string option \<Rightarrow> string option \<Rightarrow> string option \<Rightarrow> exn + list_result" where
  "Service_listProjects regex c page' limit' status' search' sort' =
     (let skip = (page' - 1) * limit';
          f = filter_of status' search'
      in case sort_option_of sort' of
           Inl e \<Rightarrow> Inl e
         | Inr so \<Rightarrow>
             (case Repository_listProjects regex c f so skip limit' of
                Inl e \<Rightarrow> Inl e
              | Inr (projects, total') \<Rightarrow>
                  Inr \<lparr>res_data = projects,
                       res_pagination =
                         \<lparr>pg_total = total', pg_page = page', pg_limit = limit',
                          pg_totalPages = Math_ceil_div total' limit'\<rparr>\<rparr>))"

section \<open>ProjectController.listProjects\<close>

text \<open>
  \<open>Number(v)\<close> of a query parameter: NaN for an absent parameter (\<open>undefined\<close>), and for
  a text whatever the parameter \<open>Number_of\<close> (JavaScript's conversion of a string to a
  number) gives: NaN when the text is not numeric, its value otherwise.
\<close>

datatype jsnum = NaN | Num int

definition Number_query :: "(string \<Rightarrow> jsnum) \<Rightarrow> string option \<Rightarrow> jsnum" where
  "Number_query Number_of v = (case v of None \<Rightarrow> NaN | Some s \<Rightarrow> Number_of s)"

text \<open>\<open>n || d\<close>: NaN and 0 are falsy.\<close>

definition or_default :: "jsnum \<Rightarrow> int \<Rightarrow> int" where
  "or_default n d = (case n of NaN \<Rightarrow> d | Num k \<Rightarrow> if k = 0 then d else k)"

record query =
  query_page :: "string option"
  query_limit :: "string option"
  query_status :: "string option"
  query_search :: "string option"
  query_sort :: "string option"

text \<open>
  The response envelope. A \<open>ThrowError\<close> is sent with its own code, title and message;
  any other error is sent as a 500 titled Internal Server Error with the error's message.
\<close>

datatype response =
    sendSuccess int string string list_result
  | sendError int string string
  | sendError_500 exn

definition respond :: "exn + list_result \<Rightarrow> response" where
  "respond r =
     (case r of
        Inr data \<Rightarrow> sendSuccess 200 ''Projects List'' ''Data fetched successfully'' data
      | Inl (ThrowError c t m) \<Rightarrow> sendError c t m
      | Inl e \<Rightarrow> sendError_500 e)"

definition page_param :: "(string \<Rightarrow> jsnum) \<Rightarrow> query \<Rightarrow> int" where
  "page_param Number_of q = or_default (Number_query Number_of (query_page q)) 1"

definition limit_param :: "(string \<Rightarrow> jsnum) \<Rightarrow> query \<Rightarrow> int" where
  "limit_param Number_of q = or_default (Number_query Number_of (query_limit q)) 10"

definition Controller_listProjects ::
  "(string \<Rightarrow> jsnum) \<Rightarrow> (string \<Rightarrow> (string \<Rightarrow> bool) option) \<Rightarrow> collection \<Rightarrow> query \<Rightarrow> response" where
  "Controller_listProjects Number_of regex c q =
     (let page' = page_param Number_of q;
          limit' = limit_param Number_of q;
          status' = query_status q;
          search' = query_search q;
          sort' = query_sort q
      in respond (Service_listProjects regex c page' limit' status' search' sort'))"

section \<open>The rules of single fields, in the words of the specification\<close>

text \<open>
  The rule for \<open>clientName\<close> and \<open>name\<close>: the value is a string, is not empty, and is
  not empty after trimming.
\<close>

definition nonblank_string :: "(string \<Rightarrow> string) \<Rightarrow> jsval option \<Rightarrow> bool" where
  "nonblank_string trim v =
     (case v of Some (JStr s) \<Rightarrow> s \<noteq> [] \<and> trim s \<noteq> [] | _ \<Rightarrow> False)"

text \<open>
  The rule for \<open>description\<close>: the property is absent, or its value is a string that is
  not empty after trimming.
\<close>

definition description_ok :: "(string \<Rightarrow> string) \<Rightarrow> jsval option \<Rightarrow> bool" where
  "description_ok trim v =
     (case v of None \<Rightarrow> True | Some (JStr s) \<Rightarrow> trim s \<noteq> [] | Some _ \<Rightarrow> False)"

section \<open>Instances of the parameters for worked examples\<close>

text \<open>
  An instance of \<open>trim\<close> for texts of ASCII characters: it removes tab, line feed,
  vertical tab, form feed, carriage return and space from both ends.
\<close>

definition is_ws :: "char \<Rightarrow> bool" where
  "is_ws c = (c \<in> set [CHR 0x09, CHR 0x0A, CHR 0x0B, CHR 0x0C, CHR 0x0D, CHR 0x20])"

definition ascii_trim :: "string \<Rightarrow> string" where
  "ascii_trim s = rev (dropWhile is_ws (rev (dropWhile is_ws s)))"

text \<open>
  An instance of \<open>new_Date\<close>: it knows the time values of two ISO dates and takes every
  other value for an invalid date.
\<close>

definition example_Date :: "jsval \<Rightarrow> date option" where
  "example_Date v =
     (if v = JStr ''2024-01-01'' then Some 1704067200000
      else if v = JStr ''2024-03-01'' then Some 1709251200000
      else None)"

text \<open>
  An instance of \<open>Number_of\<close>: the empty text is 0, decimal digits with an optional
  minus sign are their value, and every other text is taken for non-numeric.
\<close>

definition is_digit :: "char \<Rightarrow> bool" where
  "is_digit c = (c \<in> set ''0123456789'')"

definition digits_value :: "string \<Rightarrow> int" where
  "digits_value s = foldl (\<lambda>a c. 10 * a + (int (of_char c) - 48)) 0 s"

definition decimal_Number :: "string \<Rightarrow> jsnum" where
  "decimal_Number s =
     (if s = [] then Num 0
      else if list_all is_digit s then Num (digits_value s)
      else if hd s = CHR ''-'' \<and> tl s \<noteq> [] \<and> list_all is_digit (tl s)
      then Num (- digits_value (tl s))
      else NaN)"

text \<open>
  A creation payload with a client name, a project name, the given status and start date,
  and the given further properties.
\<close>

definition example_payload :: "string \<Rightarrow> string \<Rightarrow> (string \<times> jsval) list \<Rightarrow> body" where
  "example_payload st sd extra =
     map_of ([(''clientName'', JStr '' Acme ''), (''name'', JStr ''Site''),
              (''status'', JStr st), (''startDate'', JStr sd)] @ extra)"

text \<open>An instance of \<open>regex\<close> for a store that is never asked to match a pattern.\<close>

definition no_regex :: "string \<Rightarrow> (string \<Rightarrow> bool) option" where
  "no_regex pat = None"

text \<open>A stored project and a collection of \<open>n\<close> of them with distinct identifiers.\<close>

definition example_project :: "string \<Rightarrow> date \<Rightarrow> ProjectProps" where
  "example_project oid t =
     \<lparr>mongo_id = Some oid, name = ''Website'', clientName = ''Acme'', status = ''active'',
      description = None, startDate = t, endDate = None, createdAt = t, updatedAt = None\<rparr>"

definition example_id :: "nat \<Rightarrow> string" where
  "example_id k =
     ''0000000000000000000000'' @ [''0123456789'' ! (k div 10 mod 10), ''0123456789'' ! (k mod 10)]"

definition example_collection :: "nat \<Rightarrow> collection" where
  "example_collection n = map (\<lambda>k. example_project (example_id k) (int k)) [0..<n]"

section \<open>Identifiers\<close>

lemma ObjectId_isValid_iff: "ObjectId_isValid s \<longleftrightarrow> (\<exists>oid. ObjectId_new s = Inr oid)"
  by (cases "ObjectId_new s") (simp_all add: ObjectId_isValid_def)

lemma ObjectId_new_invalid: "\<not> ObjectId_isValid s \<Longrightarrow> ObjectId_new s = Inl BSONError"
  by (simp add: ObjectId_isValid_def ObjectId_new_def split: if_splits)

lemma not_valid_abc: "\<not> ObjectId_isValid ''abc''"
  by (simp add: ObjectId_isValid_def ObjectId_new_def)

lemma countDocuments_limit1_pos:
  "countDocuments_limit1 c oid > 0 \<longleftrightarrow> list_ex (has_id oid) c"
  by (induction c) (simp_all add: countDocuments_limit1_def)

lemma exists_iff:
  "ObjectId_new id' = Inr oid \<Longrightarrow> getProjectExistanceById c id' = Inr (list_ex (has_id oid) c)"
  by (simp add: getProjectExistanceById_def ObjectId_isValid_def countDocuments_limit1_pos)

text \<open>
  A status value is outside the three allowed ones exactly when the guard
  \<open>!status || !ALLOWED_STATUSES.includes(status)\<close> fires.
\<close>

lemma status_not_allowed:
  "st \<notin> Some ` JStr ` set ALLOWED_STATUSES \<longleftrightarrow> \<not> truthy st \<or> \<not> Array_includes ALLOWED_STATUSES st"
proof (cases st)
  case None
  then show ?thesis by simp
next
  case (Some v)
  then show ?thesis by (cases v) (auto simp: ALLOWED_STATUSES_def)
qed

section \<open>Malformed identifiers in the repository\<close>

text \<open>
  C3, as the code has it: of the repository operations that take an id, only
  \<open>getProjectExistanceById\<close> answers a malformed identifier with false. The other three
  (\<open>getProjectDataById\<close>, \<open>deleteProjectById\<close>, \<open>updateProjectStatusById\<close>) construct
  the ObjectId unguarded, so on a malformed identifier they raise its \<open>BSONError\<close>, as
  their doc comments announce, and leave the collection as it was. The service validates
  the identifier before it calls them: on a malformed identifier \<open>projectDeatilsById\<close>,
  \<open>removeProjectById\<close> and \<open>updateProjectStatusById\<close> of the service fail with their own
  400 "Invalid id" error, whatever the collection holds and leaving it as it was, and not
  with the error of the repository.
\<close>

theorem C3_malformed_id_repository:
  assumes "\<not> ObjectId_isValid id'"
  shows "getProjectExistanceById c id' = Inr False
       \<and> getProjectDataById c id' = Inl BSONError
       \<and> deleteProjectById c id' = (Inl BSONError, c)
       \<and> Repository_updateProjectStatusById now c id' st = (Inl BSONError, c)
       \<and> projectDeatilsById c id' = Inl (ThrowError 400 ''VALIDTION_ERROR'' ''Invalid id'')
       \<and> removeProjectById others c id'
           = (Inl (ThrowError 400 ''VALIDTION_ERROR'' ''Invalid id''), c)
       \<and> Service_updateProjectStatusById now others c id' status'
           = (Inl (ThrowError 400 ''VALIDTION_ERROR'' ''Invalid id''), c)"
  using assms ObjectId_new_invalid [OF assms]
  by (simp add: getProjectExistanceById_def getProjectDataById_def deleteProjectById_def
      Repository_updateProjectStatusById_def projectDeatilsById_def removeProjectById_def
      Service_updateProjectStatusById_def)

text \<open>The theorem of C3 at the malformed identifier \<open>abc\<close>.\<close>

theorem C3_malformed_id_repository_witness:
  "\<not> ObjectId_isValid ''abc''
   \<and> getProjectExistanceById (example_collection 2) ''abc'' = Inr False
   \<and> getProjectDataById (example_collection 2) ''abc'' = Inl BSONError
   \<and> deleteProjectById (example_collection 2) ''abc'' = (Inl BSONError, example_collection 2)
   \<and> Repository_updateProjectStatusById 7 (example_collection 2) ''abc'' ''active''
       = (Inl BSONError, example_collection 2)
   \<and> projectDeatilsById (example_collection 2) ''abc''
       = Inl (ThrowError 400 ''VALIDTION_ERROR'' ''Invalid id'')
   \<and> removeProjectById id (example_collection 2) ''abc''
       = (Inl (ThrowError 400 ''VALIDTION_ERROR'' ''Invalid id''), example_collection 2)
   \<and> Service_updateProjectStatusById 7 id (example_collection 2) ''abc'' (Some (JStr ''active''))
       = (Inl (ThrowError 400 ''VALIDTION_ERROR'' ''Invalid id''), example_collection 2)"
  using C3_malformed_id_repository [where id' = "''abc''" and c = "example_collection 2"
      and now = 7 and st = "''active''" and others = id and status' = "Some (JStr ''active'')"]
    not_valid_abc
  by simp

text \<open>
  C3 as stated fails: on the malformed identifier \<open>abc\<close> the lookup
  \<open>getProjectDataById\<close> raises instead of returning "not found".
\<close>

theorem C3_findById_raises_counterexample:
  "\<not> ObjectId_isValid ''abc'' \<and> getProjectDataById [] ''abc'' = Inl BSONError
   \<and> getProjectDataById [] ''abc'' \<noteq> Inr None"
  by (simp add: ObjectId_isValid_def ObjectId_new_def getProjectDataById_def)

section \<open>Fetching a project by id\<close>

lemma projectDeatilsById_not_found:
  "ObjectId_new id' = Inr oid \<Longrightarrow> findOne c oid = None \<Longrightarrow>
   projectDeatilsById c id' = Inl (ThrowError 404 ''NOT_FOUND'' ''Project not found'')"
  by (simp add: projectDeatilsById_def ObjectId_isValid_def getProjectDataById_def)

lemma projectDeatilsById_found:
  "ObjectId_new id' = Inr oid \<Longrightarrow> findOne c oid = Some d \<Longrightarrow>
   projectDeatilsById c id' = Inr (to_details d)"
  by (simp add: projectDeatilsById_def ObjectId_isValid_def getProjectDataById_def)

text \<open>
  C4 at the malformed identifier \<open>abc\<close>: whatever the collection holds,
  \<open>projectDeatilsById\<close> fails with code 400 and message "Invalid id", but the title of
  the error it throws is spelled \<open>VALIDTION_ERROR\<close>, which is not the kind
  \<open>VALIDATION_ERROR\<close> that the status check of the same service and the validator use.
\<close>

theorem C4_invalid_id_title:
  "\<not> ObjectId_isValid ''abc''
   \<and> projectDeatilsById c ''abc'' = Inl (ThrowError 400 ''VALIDTION_ERROR'' ''Invalid id'')
   \<and> projectDeatilsById c ''abc'' \<noteq> Inl (ThrowError 400 ''VALIDATION_ERROR'' ''Invalid id'')"
  using not_valid_abc by (simp add: projectDeatilsById_def)

section \<open>Order of the checks in the status update\<close>

text \<open>
  C9: for a well-formed id that matches no document and a status that is absent or not
  one of active, on_hold, completed, \<open>updateProjectStatusById\<close> fails with the 400
  VALIDATION_ERROR "Invalid or missing project status" and leaves the collection as it
  was; the result is not the 404 of the existence check.
\<close>

theorem C9_status_checked_before_existence:
  assumes "ObjectId_new id' = Inr oid"
    and "\<not> list_ex (has_id oid) c"
    and "st \<notin> Some ` JStr ` set ALLOWED_STATUSES"
  shows "Service_updateProjectStatusById now others c id' st
           = (Inl (ThrowError 400 ''VALIDATION_ERROR'' ''Invalid or missing project status''), c)
       \<and> fst (Service_updateProjectStatusById now others c id' st)
           \<noteq> Inl (ThrowError 404 ''NOT_FOUND'' ''Project not found'')"
  using assms(1) assms(3) [unfolded status_not_allowed]
  by (auto simp: Service_updateProjectStatusById_def ObjectId_isValid_def)

text \<open>The theorem of C9 at an id that no document of a two-project collection has.\<close>

theorem C9_status_checked_before_existence_witness:
  "ObjectId_new ''000000000000000000000007'' = Inr ''000000000000000000000007''
   \<and> \<not> list_ex (has_id ''000000000000000000000007'') (example_collection 2)
   \<and> Some (JStr ''done'') \<notin> Some ` JStr ` set ALLOWED_STATUSES
   \<and> Service_updateProjectStatusById 99 id (example_collection 2) ''000000000000000000000007''
        (Some (JStr ''done''))
       = (Inl (ThrowError 400 ''VALIDATION_ERROR'' ''Invalid or missing project status''),
          example_collection 2)"
proof -
  have a: "ObjectId_new ''000000000000000000000007'' = Inr ''000000000000000000000007''"
    by (simp add: ObjectId_new_def is_hex_def hex_lower_def)
  have b: "\<not> list_ex (has_id ''000000000000000000000007'') (example_collection 2)"
    by (simp add: example_collection_def example_project_def example_id_def has_id_def upt_rec)
  have c: "Some (JStr ''done'') \<notin> Some ` JStr ` set ALLOWED_STATUSES"
    by (simp add: ALLOWED_STATUSES_def image_iff)
  show ?thesis using a b c C9_status_checked_before_existence [OF a b c, of 99 id] by simp
qed


section \<open>Removing a project\<close>

lemma deleteOne_absent: "\<not> list_ex (has_id oid) c \<Longrightarrow> deleteOne c oid = (0, c)"
  by (induction c) simp_all

lemma deleteOne_present: "list_ex (has_id oid) c \<Longrightarrow> fst (deleteOne c oid) = 1"
  by (induction c) (auto split: prod.splits)

lemma deleteOne_distinct:
  "distinct (map mongo_id c) \<Longrightarrow> \<not> list_ex (has_id oid) (snd (deleteOne c oid))"
proof (induction c)
  case Nil
  then show ?case by simp
next
  case (Cons d ds)
  show ?case
  proof (cases "has_id oid d")
    case True
    with Cons.prems have "\<forall>x\<in>set ds. \<not> has_id oid x"
      by (fastforce simp: has_id_def image_iff)
    with True show ?thesis by (simp add: list_ex_iff)
  next
    case False
    with Cons show ?thesis by (cases "deleteOne ds oid") simp
  qed
qed

lemma removeProjectById_absent:
  assumes "ObjectId_new id' = Inr oid" and "\<not> list_ex (has_id oid) c"
  shows "removeProjectById others c id'
           = (Inl (ThrowError 404 ''NOT_FOUND'' ''Project not found''), c)"
  using assms
  by (simp add: removeProjectById_def ObjectId_isValid_def exists_iff)

lemma removeProjectById_no_effect:
  assumes "ObjectId_new id' = Inr oid" and "list_ex (has_id oid) c"
    and "\<not> list_ex (has_id oid) (others c)"
  shows "removeProjectById others c id'
           = (Inl (ThrowError 500 ''FAILURE'' ''Failed to delete project''), others c)"
  using assms
  by (simp add: removeProjectById_def ObjectId_isValid_def exists_iff deleteProjectById_def
      deleteOne_absent)

lemma removeProjectById_deleted:
  assumes "ObjectId_new id' = Inr oid" and "list_ex (has_id oid) c"
    and "list_ex (has_id oid) (others c)"
  shows "removeProjectById others c id' = (Inr (), snd (deleteOne (others c) oid))"
  using assms deleteOne_present [OF assms(3)]
  by (cases "deleteOne (others c) oid")
    (simp add: removeProjectById_def ObjectId_isValid_def exists_iff deleteProjectById_def)

text \<open>
  C7: for a well-formed id (its ObjectId is \<open>oid\<close>), \<open>removeProjectById\<close> checks
  existence first and fails with NOT_FOUND/404, the collection untouched, when no document
  has the id; fails with FAILURE/500 when the document existed at the check but the
  deletion, run after the requests served in between, deleted nothing; and succeeds
  otherwise, with the document deleted. Hence, in a collection whose identifiers are
  distinct and with no other request in between, deleting the same project twice
  succeeds the first time and fails with 404 the second time.
\<close>

theorem C7_remove_checks_existence_first:
  assumes "ObjectId_new id' = Inr oid"
  shows "(\<not> list_ex (has_id oid) c \<longrightarrow>
            removeProjectById others c id'
              = (Inl (ThrowError 404 ''NOT_FOUND'' ''Project not found''), c))
       \<and> (list_ex (has_id oid) c \<and> \<not> list_ex (has_id oid) (others c) \<longrightarrow>
            removeProjectById others c id'
              = (Inl (ThrowError 500 ''FAILURE'' ''Failed to delete project''), others c))
       \<and> (list_ex (has_id oid) c \<and> list_ex (has_id oid) (others c) \<longrightarrow>
            removeProjectById others c id' = (Inr (), snd (deleteOne (others c) oid)))
       \<and> (list_ex (has_id oid) c \<and> distinct (map mongo_id c) \<longrightarrow>
            (\<exists>c1. removeProjectById id c id' = (Inr (), c1)
                \<and> removeProjectById id c1 id'
                    = (Inl (ThrowError 404 ''NOT_FOUND'' ''Project not found''), c1)))"
proof (intro conjI impI)
  assume "\<not> list_ex (has_id oid) c"
  then show "removeProjectById others c id'
               = (Inl (ThrowError 404 ''NOT_FOUND'' ''Project not found''), c)"
    by (rule removeProjectById_absent [OF assms])
next
  assume "list_ex (has_id oid) c \<and> \<not> list_ex (has_id oid) (others c)"
  then show "removeProjectById others c id'
               = (Inl (ThrowError 500 ''FAILURE'' ''Failed to delete project''), others c)"
    by (simp add: removeProjectById_no_effect [OF assms])
next
  assume "list_ex (has_id oid) c \<and> list_ex (has_id oid) (others c)"
  then show "removeProjectById others c id' = (Inr (), snd (deleteOne (others c) oid))"
    by (simp add: removeProjectById_deleted [OF assms])
next
  assume h: "list_ex (has_id oid) c \<and> distinct (map mongo_id c)"
  let ?c1 = "snd (deleteOne c oid)"
  from h have first: "removeProjectById id c id' = (Inr (), ?c1)"
    using removeProjectById_deleted [OF assms, of c id] by simp
  from h have "\<not> list_ex (has_id oid) ?c1"
    by (simp add: deleteOne_distinct)
  then have "removeProjectById id ?c1 id'
               = (Inl (ThrowError 404 ''NOT_FOUND'' ''Project not found''), ?c1)"
    by (rule removeProjectById_absent [OF assms])
  with first show "\<exists>c1. removeProjectById id c id' = (Inr (), c1)
      \<and> removeProjectById id c1 id'
          = (Inl (ThrowError 404 ''NOT_FOUND'' ''Project not found''), c1)"
    by blast
qed

lemma example_collection_2:
  "example_collection 2
     = [example_project ''000000000000000000000000'' 0,
        example_project ''000000000000000000000001'' 1]"
  by (simp add: example_collection_def example_id_def upt_rec)

text \<open>
  The theorem of C7 on a collection of two projects: an id that no document has, a
  deletion that another request has pre-empted, and the same project deleted twice.
\<close>

theorem C7_remove_checks_existence_first_witness:
  "ObjectId_new ''000000000000000000000001'' = Inr ''000000000000000000000001''
   \<and> list_ex (has_id ''000000000000000000000001'') (example_collection 2)
   \<and> distinct (map mongo_id (example_collection 2))
   \<and> \<not> list_ex (has_id ''000000000000000000000001'') (butlast (example_collection 2))
   \<and> \<not> list_ex (has_id ''000000000000000000000001'') []
   \<and> removeProjectById id [] ''000000000000000000000001''
        = (Inl (ThrowError 404 ''NOT_FOUND'' ''Project not found''), [])
   \<and> removeProjectById butlast (example_collection 2) ''000000000000000000000001''
        = (Inl (ThrowError 500 ''FAILURE'' ''Failed to delete project''),
           butlast (example_collection 2))
   \<and> removeProjectById id (example_collection 2) ''000000000000000000000001''
        = (Inr (), [example_project ''000000000000000000000000'' 0])
   \<and> removeProjectById id [example_project ''000000000000000000000000'' 0]
          ''000000000000000000000001''
        = (Inl (ThrowError 404 ''NOT_FOUND'' ''Project not found''),
           [example_project ''000000000000000000000000'' 0])"
proof -
  let ?i = "''000000000000000000000001''"
  have a: "ObjectId_new ?i = Inr ?i"
    by (simp add: ObjectId_new_def is_hex_def hex_lower_def)
  have b: "list_ex (has_id ?i) (example_collection 2)"
    by (simp add: example_collection_2 example_project_def has_id_def)
  have d: "distinct (map mongo_id (example_collection 2))"
    by (simp add: example_collection_2 example_project_def)
  have e: "\<not> list_ex (has_id ?i) (butlast (example_collection 2))"
    by (simp add: example_collection_2 example_project_def has_id_def)
  have f: "\<not> list_ex (has_id ?i) []" by simp
  have g: "snd (deleteOne (example_collection 2) ?i)
             = [example_project ''000000000000000000000000'' 0]"
    by (simp add: example_collection_2 example_project_def has_id_def)
  have h: "\<not> list_ex (has_id ?i) [example_project ''000000000000000000000000'' 0]"
    by (simp add: example_project_def has_id_def)
  note t1 = C7_remove_checks_existence_first [OF a, of "[]" id]
  note t2 = C7_remove_checks_existence_first [OF a, of "example_collection 2" butlast]
  note t3 = C7_remove_checks_existence_first [OF a, of "example_collection 2" id]
  note t4 = C7_remove_checks_existence_first
    [OF a, of "[example_project ''000000000000000000000000'' 0]" id]
  show ?thesis
    using a b d e f g h t1 t2 t3 t4 by simp
qed


section \<open>The validator\<close>

lemma nonblank_string_iff:
  "nonblank_string trim v \<longleftrightarrow> \<not> (\<not> truthy v \<or> typeof v \<noteq> ''string'' \<or> trim (str v) = [])"
proof (cases v)
  case None
  then show ?thesis by (simp add: nonblank_string_def)
next
  case (Some x)
  then show ?thesis by (cases x) (auto simp: nonblank_string_def)
qed

lemma description_guard:
  "description_ok trim v \<longleftrightarrow> \<not> (v \<noteq> None \<and> (typeof v \<noteq> ''string'' \<or> trim (str v) = []))"
proof (cases v)
  case None
  then show ?thesis by (simp add: description_ok_def)
next
  case (Some x)
  then show ?thesis by (cases x) (auto simp: description_ok_def)
qed

lemma status_allowed:
  "st \<in> Some ` JStr ` set ALLOWED_STATUSES \<longleftrightarrow> truthy st \<and> Array_includes ALLOWED_STATUSES st"
  using status_not_allowed [of st] by blast

text \<open>Every failure of the validator is a 400 VALIDATION_ERROR.\<close>

lemma Validator_error_kind:
  "Validator_createProject trim new_Date now data = Inl e \<Longrightarrow>
   \<exists>msg. e = ThrowError 400 ''VALIDATION_ERROR'' msg"
  by (auto simp: Validator_createProject_def Let_def validation_error_def
      split: if_splits option.splits)

text \<open>What an accepted payload looks like, and the record made from it.\<close>

lemma Validator_accepts:
  assumes "Validator_createProject trim new_Date now data = Inr r"
  shows "nonblank_string trim (data ''clientName'')"
    and "nonblank_string trim (data ''name'')"
    and "description_ok trim (data ''description'')"
    and "data ''status'' \<in> Some ` JStr ` set ALLOWED_STATUSES"
    and "truthy (data ''startDate'')"
    and "Date_of new_Date (data ''startDate'') = Some (startDate r)"
    and "r = \<lparr>mongo_id = None, name = trim (str (data ''name'')),
              clientName = trim (str (data ''clientName'')), status = str (data ''status''),
              description = map_option (\<lambda>v. trim (str (Some v))) (data ''description''),
              startDate = startDate r,
              endDate = endDate r, createdAt = now, updatedAt = None\<rparr>"
    and "endDate r = (case data ''endDate'' of None \<Rightarrow> None | Some e \<Rightarrow> new_Date e)"
    and "\<forall>e. endDate r = Some e \<longrightarrow> startDate r \<le> e"
    and "endDate r = None \<longleftrightarrow> data ''endDate'' = None"
proof -
  from assms have g:
    "\<not> (\<not> truthy (data ''clientName'') \<or> typeof (data ''clientName'') \<noteq> ''string''
        \<or> trim (str (data ''clientName'')) = [])"
    "\<not> (\<not> truthy (data ''name'') \<or> typeof (data ''name'') \<noteq> ''string''
        \<or> trim (str (data ''name'')) = [])"
    "\<not> (data ''description'' \<noteq> None \<and>
        (typeof (data ''description'') \<noteq> ''string'' \<or> trim (str (data ''description'')) = []))"
    "truthy (data ''status'') \<and> Array_includes ALLOWED_STATUSES (data ''status'')"
    "truthy (data ''startDate'')"
    by (simp_all add: Validator_createProject_def Let_def split: if_splits)
  from g(1) show "nonblank_string trim (data ''clientName'')"
    unfolding nonblank_string_iff by blast
  from g(2) show "nonblank_string trim (data ''name'')"
    unfolding nonblank_string_iff by blast
  from g(3) show "description_ok trim (data ''description'')"
    unfolding description_guard by blast
  from g(4) show "data ''status'' \<in> Some ` JStr ` set ALLOWED_STATUSES"
    unfolding status_allowed by blast
  from g(5) show "truthy (data ''startDate'')" .
  from assms g show "Date_of new_Date (data ''startDate'') = Some (startDate r)"
    by (auto simp: Validator_createProject_def Let_def split: if_splits option.splits)
  from assms g show "r = \<lparr>mongo_id = None, name = trim (str (data ''name'')),
              clientName = trim (str (data ''clientName'')), status = str (data ''status''),
              description = map_option (\<lambda>v. trim (str (Some v))) (data ''description''),
              startDate = startDate r,
              endDate = endDate r, createdAt = now, updatedAt = None\<rparr>"
    by (auto simp: Validator_createProject_def Let_def split: if_splits option.splits)
  from assms g show "endDate r = (case data ''endDate'' of None \<Rightarrow> None | Some e \<Rightarrow> new_Date e)"
    by (auto simp: Validator_createProject_def Let_def Date_of_def split: if_splits option.splits)
  from assms g show "\<forall>e. endDate r = Some e \<longrightarrow> startDate r \<le> e"
    by (auto simp: Validator_createProject_def Let_def split: if_splits option.splits)
  from assms g show "endDate r = None \<longleftrightarrow> data ''endDate'' = None"
    by (auto simp: Validator_createProject_def Let_def split: if_splits option.splits)
qed

text \<open>
  Once the client name, the project name and the description have passed, the status is
  the next thing checked.
\<close>

lemma Validator_status_rejected:
  assumes "nonblank_string trim (data ''clientName'')" and "nonblank_string trim (data ''name'')"
    and "description_ok trim (data ''description'')"
    and "data ''status'' \<notin> Some ` JStr ` set ALLOWED_STATUSES"
  shows "Validator_createProject trim new_Date now data
           = Inl (ThrowError 400 ''VALIDATION_ERROR'' ''Invalid or missing project status'')"
proof -
  from assms(1) have a: "truthy (data ''clientName'')" "typeof (data ''clientName'') = ''string''"
    "trim (str (data ''clientName'')) \<noteq> []"
    unfolding nonblank_string_iff by blast+
  from assms(2) have b: "truthy (data ''name'')" "typeof (data ''name'') = ''string''"
    "trim (str (data ''name'')) \<noteq> []"
    unfolding nonblank_string_iff by blast+
  from assms(3) have c: "\<not> (data ''description'' \<noteq> None \<and>
      (typeof (data ''description'') \<noteq> ''string'' \<or> trim (str (data ''description'')) = []))"
    unfolding description_guard by blast
  from assms(4) have d: "\<not> truthy (data ''status'')
      \<or> \<not> Array_includes ALLOWED_STATUSES (data ''status'')"
    unfolding status_not_allowed by blast
  show ?thesis
    unfolding Validator_createProject_def Let_def validation_error_def
    using a b c d by (simp only: simp_thms if_True if_False)
qed

lemma Validator_bad_status_fails:
  assumes "data ''status'' \<notin> Some ` JStr ` set ALLOWED_STATUSES"
  shows "\<exists>msg. Validator_createProject trim new_Date now data
               = Inl (ThrowError 400 ''VALIDATION_ERROR'' msg)"
proof (cases "Validator_createProject trim new_Date now data")
  case (Inl e)
  then show ?thesis using Validator_error_kind [OF Inl] by simp
next
  case (Inr r)
  from Validator_accepts(4) [OF Inr] assms show ?thesis by simp
qed

text \<open>With every earlier field accepted, the end date decides the outcome.\<close>

lemma Validator_endDate:
  assumes "nonblank_string trim (data ''clientName'')" and "nonblank_string trim (data ''name'')"
    and "description_ok trim (data ''description'')"
    and "data ''status'' \<in> Some ` JStr ` set ALLOWED_STATUSES"
    and "truthy (data ''startDate'')"
    and "Date_of new_Date (data ''startDate'') = Some parsedStart"
  shows "data ''endDate'' = Some e \<Longrightarrow> new_Date e = None \<Longrightarrow>
           Validator_createProject trim new_Date now data
             = Inl (ThrowError 400 ''VALIDATION_ERROR'' ''End date must be a valid ISO date'')"
    and "data ''endDate'' = Some e \<Longrightarrow> new_Date e = Some parsedEnd \<Longrightarrow> parsedEnd < parsedStart \<Longrightarrow>
           Validator_createProject trim new_Date now data
             = Inl (ThrowError 400 ''VALIDATION_ERROR'' ''End date cannot be before start date'')"
    and "data ''endDate'' = Some e \<Longrightarrow> new_Date e = Some parsedEnd \<Longrightarrow> parsedStart \<le> parsedEnd \<Longrightarrow>
           \<exists>r. Validator_createProject trim new_Date now data = Inr r
              \<and> endDate r = Some parsedEnd \<and> startDate r = parsedStart"
    and "data ''endDate'' = None \<Longrightarrow>
           \<exists>r. Validator_createProject trim new_Date now data = Inr r \<and> endDate r = None"
proof -
  from assms(1) have a: "truthy (data ''clientName'')" "typeof (data ''clientName'') = ''string''"
    "trim (str (data ''clientName'')) \<noteq> []"
    unfolding nonblank_string_iff by blast+
  from assms(2) have b: "truthy (data ''name'')" "typeof (data ''name'') = ''string''"
    "trim (str (data ''name'')) \<noteq> []"
    unfolding nonblank_string_iff by blast+
  from assms(3) have c: "(data ''description'' \<noteq> None \<and>
      (typeof (data ''description'') \<noteq> ''string'' \<or> trim (str (data ''description'')) = []))
      = False"
    unfolding description_guard by blast
  from assms(4) have d: "truthy (data ''status'')"
    "Array_includes ALLOWED_STATUSES (data ''status'')"
    unfolding status_allowed by blast+
  note front = a b c d assms(5) assms(6)
  show "data ''endDate'' = Some e \<Longrightarrow> new_Date e = None \<Longrightarrow>
           Validator_createProject trim new_Date now data
             = Inl (ThrowError 400 ''VALIDATION_ERROR'' ''End date must be a valid ISO date'')"
    using front by (simp add: Validator_createProject_def Let_def validation_error_def Date_of_def)
  show "data ''endDate'' = Some e \<Longrightarrow> new_Date e = Some parsedEnd \<Longrightarrow> parsedEnd < parsedStart \<Longrightarrow>
           Validator_createProject trim new_Date now data
             = Inl (ThrowError 400 ''VALIDATION_ERROR'' ''End date cannot be before start date'')"
    using front by (simp add: Validator_createProject_def Let_def validation_error_def Date_of_def)
  show "data ''endDate'' = Some e \<Longrightarrow> new_Date e = Some parsedEnd \<Longrightarrow> parsedStart \<le> parsedEnd \<Longrightarrow>
           \<exists>r. Validator_createProject trim new_Date now data = Inr r
              \<and> endDate r = Some parsedEnd \<and> startDate r = parsedStart"
    using front by (simp add: Validator_createProject_def Let_def validation_error_def Date_of_def)
  show "data ''endDate'' = None \<Longrightarrow>
           \<exists>r. Validator_createProject trim new_Date now data = Inr r \<and> endDate r = None"
    using front by (simp add: Validator_createProject_def Let_def validation_error_def Date_of_def)
qed

text \<open>
  C2, as the code has it. The checks of \<open>clientName\<close>, \<open>name\<close>, \<open>description\<close>,
  \<open>status\<close> and \<open>startDate\<close> come first and the first failure ends the validation. For
  a payload that passes them and in which \<open>endDate\<close> is present, the validator fails with
  the 400 VALIDATION_ERROR "End date must be a valid ISO date" when \<open>endDate\<close> gives no
  valid date, with "End date cannot be before start date" when the parsed end is
  strictly before the parsed start, and otherwise puts the parsed end date in the output.
  For every payload: an end date that is invalid or before the start date is rejected
  with a 400 VALIDATION_ERROR; every record produced has its end date, when it has one,
  not before its start date; and an end date absent from the payload is absent from the
  record.
\<close>

theorem C2_endDate_rules:
  "(nonblank_string trim (data ''clientName'') \<and> nonblank_string trim (data ''name'')
      \<and> description_ok trim (data ''description'')
      \<and> data ''status'' \<in> Some ` JStr ` set ALLOWED_STATUSES
      \<and> truthy (data ''startDate'')
      \<and> Date_of new_Date (data ''startDate'') = Some parsedStart
      \<and> data ''endDate'' = Some e \<longrightarrow>
        (new_Date e = None \<longrightarrow>
           Validator_createProject trim new_Date now data
             = Inl (ThrowError 400 ''VALIDATION_ERROR'' ''End date must be a valid ISO date''))
      \<and> (\<forall>parsedEnd. new_Date e = Some parsedEnd \<and> parsedEnd < parsedStart \<longrightarrow>
           Validator_createProject trim new_Date now data
             = Inl (ThrowError 400 ''VALIDATION_ERROR'' ''End date cannot be before start date''))
      \<and> (\<forall>parsedEnd. new_Date e = Some parsedEnd \<and> parsedStart \<le> parsedEnd \<longrightarrow>
           (\<exists>r. Validator_createProject trim new_Date now data = Inr r
               \<and> endDate r = Some parsedEnd \<and> startDate r = parsedStart)))
   \<and> (data ''endDate'' = Some e
        \<and> (new_Date e = None
             \<or> (\<exists>ps pe. Date_of new_Date (data ''startDate'') = Some ps
                   \<and> new_Date e = Some pe \<and> pe < ps)) \<longrightarrow>
        (\<exists>msg. Validator_createProject trim new_Date now data
                  = Inl (ThrowError 400 ''VALIDATION_ERROR'' msg)))
   \<and> (\<forall>r. Validator_createProject trim new_Date now data = Inr r \<longrightarrow>
          (\<forall>pe. endDate r = Some pe \<longrightarrow> startDate r \<le> pe)
        \<and> (data ''endDate'' = None \<longrightarrow> endDate r = None))"
proof (intro conjI impI allI)
  assume h: "nonblank_string trim (data ''clientName'') \<and> nonblank_string trim (data ''name'')
      \<and> description_ok trim (data ''description'')
      \<and> data ''status'' \<in> Some ` JStr ` set ALLOWED_STATUSES
      \<and> truthy (data ''startDate'')
      \<and> Date_of new_Date (data ''startDate'') = Some parsedStart
      \<and> data ''endDate'' = Some e"
  then have f: "nonblank_string trim (data ''clientName'')" "nonblank_string trim (data ''name'')"
    "description_ok trim (data ''description'')"
    "data ''status'' \<in> Some ` JStr ` set ALLOWED_STATUSES"
    "truthy (data ''startDate'')"
    "Date_of new_Date (data ''startDate'') = Some parsedStart"
    and e: "data ''endDate'' = Some e"
    by blast+
  {
    assume "new_Date e = None"
    with e show "Validator_createProject trim new_Date now data
        = Inl (ThrowError 400 ''VALIDATION_ERROR'' ''End date must be a valid ISO date'')"
      by (rule Validator_endDate(1) [OF f])
  }
  {
    fix parsedEnd
    assume "new_Date e = Some parsedEnd \<and> parsedEnd < parsedStart"
    with e show "Validator_createProject trim new_Date now data
        = Inl (ThrowError 400 ''VALIDATION_ERROR'' ''End date cannot be before start date'')"
      using Validator_endDate(2) [OF f] by blast
  }
  {
    fix parsedEnd
    assume "new_Date e = Some parsedEnd \<and> parsedStart \<le> parsedEnd"
    with e show "\<exists>r. Validator_createProject trim new_Date now data = Inr r
        \<and> endDate r = Some parsedEnd \<and> startDate r = parsedStart"
      using Validator_endDate(3) [OF f] by blast
  }
next
  assume h: "data ''endDate'' = Some e
        \<and> (new_Date e = None
             \<or> (\<exists>ps pe. Date_of new_Date (data ''startDate'') = Some ps
                   \<and> new_Date e = Some pe \<and> pe < ps))"
  show "\<exists>msg. Validator_createProject trim new_Date now data
                 = Inl (ThrowError 400 ''VALIDATION_ERROR'' msg)"
  proof (cases "Validator_createProject trim new_Date now data")
    case (Inl err)
    then show ?thesis using Validator_error_kind [OF Inl] by simp
  next
    case (Inr r)
    from Validator_accepts(6,8,9,10) [OF Inr] h have False
      by auto
    then show ?thesis ..
  qed
next
  fix r pe
  assume "Validator_createProject trim new_Date now data = Inr r" and "endDate r = Some pe"
  then show "startDate r \<le> pe"
    using Validator_accepts(9) by blast
next
  fix r
  assume "Validator_createProject trim new_Date now data = Inr r" and "data ''endDate'' = None"
  then show "endDate r = None"
    using Validator_accepts(8) by fastforce
qed

lemma example_payload_front:
  "nonblank_string ascii_trim (example_payload st sd extra ''clientName'')"
  "nonblank_string ascii_trim (example_payload st sd extra ''name'')"
  "example_payload st sd extra ''status'' = Some (JStr st)"
  "example_payload st sd extra ''startDate'' = Some (JStr sd)"
  by (simp_all add: example_payload_def nonblank_string_def ascii_trim_def is_ws_def)

lemma example_payload_rest:
  "example_payload st sd [] ''description'' = None"
  "example_payload st sd [] ''endDate'' = None"
  "example_payload st sd [(''endDate'', v)] ''description'' = None"
  "example_payload st sd [(''endDate'', v)] ''endDate'' = Some v"
  by (simp_all add: example_payload_def)

lemma active_allowed: "Some (JStr ''active'') \<in> Some ` JStr ` set ALLOWED_STATUSES"
  by (simp add: ALLOWED_STATUSES_def)

lemma example_Date_values:
  "example_Date (JStr ''2024-01-01'') = Some 1704067200000"
  "example_Date (JStr ''2024-03-01'') = Some 1709251200000"
  "example_Date (JStr ''garbage'') = None"
  by (simp_all add: example_Date_def)

text \<open>
  The theorem of C2 on three payloads that pass the earlier checks: an end date that is
  no date, an end date before the start date, and an end date after it.
\<close>

theorem C2_endDate_rules_witness:
  "nonblank_string ascii_trim (example_payload ''active'' ''2024-01-01'' [(''endDate'', JStr ''garbage'')] ''clientName'')
   \<and> nonblank_string ascii_trim (example_payload ''active'' ''2024-01-01'' [(''endDate'', JStr ''garbage'')] ''name'')
   \<and> description_ok ascii_trim
        (example_payload ''active'' ''2024-01-01'' [(''endDate'', JStr ''garbage'')] ''description'')
   \<and> example_payload ''active'' ''2024-01-01'' [(''endDate'', JStr ''garbage'')] ''status''
        \<in> Some ` JStr ` set ALLOWED_STATUSES
   \<and> truthy (example_payload ''active'' ''2024-01-01'' [(''endDate'', JStr ''garbage'')] ''startDate'')
   \<and> Date_of example_Date
        (example_payload ''active'' ''2024-01-01'' [(''endDate'', JStr ''garbage'')] ''startDate'')
        = Some 1704067200000
   \<and> example_payload ''active'' ''2024-01-01'' [(''endDate'', JStr ''garbage'')] ''endDate''
        = Some (JStr ''garbage'')
   \<and> example_Date (JStr ''garbage'') = None
   \<and> Validator_createProject ascii_trim example_Date 5
        (example_payload ''active'' ''2024-01-01'' [(''endDate'', JStr ''garbage'')])
        = Inl (ThrowError 400 ''VALIDATION_ERROR'' ''End date must be a valid ISO date'')
   \<and> Validator_createProject ascii_trim example_Date 5
        (example_payload ''active'' ''2024-03-01'' [(''endDate'', JStr ''2024-01-01'')])
        = Inl (ThrowError 400 ''VALIDATION_ERROR'' ''End date cannot be before start date'')
   \<and> (\<exists>r. Validator_createProject ascii_trim example_Date 5
              (example_payload ''active'' ''2024-01-01'' [(''endDate'', JStr ''2024-03-01'')]) = Inr r
          \<and> endDate r = Some 1709251200000 \<and> startDate r = 1704067200000)"
proof -
  note t1 = C2_endDate_rules [where trim = ascii_trim and new_Date = example_Date and now = 5
      and data = "example_payload ''active'' ''2024-01-01'' [(''endDate'', JStr ''garbage'')]"
      and parsedStart = 1704067200000 and e = "JStr ''garbage''"]
  note t2 = C2_endDate_rules [where trim = ascii_trim and new_Date = example_Date and now = 5
      and data = "example_payload ''active'' ''2024-03-01'' [(''endDate'', JStr ''2024-01-01'')]"
      and parsedStart = 1709251200000 and e = "JStr ''2024-01-01''"]
  note t3 = C2_endDate_rules [where trim = ascii_trim and new_Date = example_Date and now = 5
      and data = "example_payload ''active'' ''2024-01-01'' [(''endDate'', JStr ''2024-03-01'')]"
      and parsedStart = 1704067200000 and e = "JStr ''2024-03-01''"]
  show ?thesis
    using t1 t2 t3
    by (simp add: example_payload_front example_payload_rest active_allowed example_Date_values
        Date_of_def description_ok_def)
qed

text \<open>
  C2 as stated fails: a payload whose \<open>endDate\<close> is present and is no date, but which
  has no \<open>clientName\<close>, is rejected with the message of the first check, not with
  "End date must be a valid ISO date".
\<close>

theorem C2_earlier_check_wins_counterexample:
  "map_of [(''endDate'', JStr ''garbage'')] ''endDate'' = Some (JStr ''garbage'')
   \<and> example_Date (JStr ''garbage'') = None
   \<and> Validator_createProject ascii_trim example_Date 5 (map_of [(''endDate'', JStr ''garbage'')])
        = Inl (ThrowError 400 ''VALIDATION_ERROR'' ''Client name is required'')
   \<and> Validator_createProject ascii_trim example_Date 5 (map_of [(''endDate'', JStr ''garbage'')])
        \<noteq> Inl (ThrowError 400 ''VALIDATION_ERROR'' ''End date must be a valid ISO date'')"
  by (simp add: Validator_createProject_def Let_def validation_error_def example_Date_def)


section \<open>Creating a project\<close>

text \<open>
  C5, as the code has it: for every creation payload whose status is absent or is not one
  of active, on_hold, completed, \<open>createProject\<close> fails with a 400 VALIDATION_ERROR and
  the collection is unchanged (the validator throws before the repository is called).
  The message is "Invalid or missing project status" when \<open>clientName\<close>, \<open>name\<close> and
  \<open>description\<close>, which are checked first, pass their checks.
\<close>

theorem C5_bad_status_not_persisted:
  assumes "data ''status'' \<notin> Some ` JStr ` set ALLOWED_STATUSES"
  shows "(\<exists>msg. Service_createProject trim new_Date now fresh c data
                  = (Inl (ThrowError 400 ''VALIDATION_ERROR'' msg), c))
       \<and> (nonblank_string trim (data ''clientName'') \<and> nonblank_string trim (data ''name'')
            \<and> description_ok trim (data ''description'') \<longrightarrow>
          Service_createProject trim new_Date now fresh c data
            = (Inl (ThrowError 400 ''VALIDATION_ERROR'' ''Invalid or missing project status''), c))"
proof (intro conjI impI)
  from Validator_bad_status_fails [where data = data, OF assms]
  obtain msg where "Validator_createProject trim new_Date now data
      = Inl (ThrowError 400 ''VALIDATION_ERROR'' msg)"
    by blast
  then show "\<exists>msg. Service_createProject trim new_Date now fresh c data
                  = (Inl (ThrowError 400 ''VALIDATION_ERROR'' msg), c)"
    by (simp add: Service_createProject_def)
next
  assume "nonblank_string trim (data ''clientName'') \<and> nonblank_string trim (data ''name'')
            \<and> description_ok trim (data ''description'')"
  then have "Validator_createProject trim new_Date now data
      = Inl (ThrowError 400 ''VALIDATION_ERROR'' ''Invalid or missing project status'')"
    using Validator_status_rejected [where data = data] assms by blast
  then show "Service_createProject trim new_Date now fresh c data
            = (Inl (ThrowError 400 ''VALIDATION_ERROR'' ''Invalid or missing project status''), c)"
    by (simp add: Service_createProject_def)
qed

text \<open>
  The theorem of C5 on a payload whose status is not an allowed one and whose earlier
  fields are accepted.
\<close>

theorem C5_bad_status_not_persisted_witness:
  "example_payload ''done'' ''2024-01-01'' [] ''status'' \<notin> Some ` JStr ` set ALLOWED_STATUSES
   \<and> nonblank_string ascii_trim (example_payload ''done'' ''2024-01-01'' [] ''clientName'')
   \<and> nonblank_string ascii_trim (example_payload ''done'' ''2024-01-01'' [] ''name'')
   \<and> description_ok ascii_trim (example_payload ''done'' ''2024-01-01'' [] ''description'')
   \<and> Service_createProject ascii_trim example_Date 5 ''000000000000000000000009'' (example_collection 2)
        (example_payload ''done'' ''2024-01-01'' [])
        = (Inl (ThrowError 400 ''VALIDATION_ERROR'' ''Invalid or missing project status''),
           example_collection 2)"
proof -
  have a: "example_payload ''done'' ''2024-01-01'' [] ''status''
             \<notin> Some ` JStr ` set ALLOWED_STATUSES"
    by (simp add: example_payload_front ALLOWED_STATUSES_def image_iff)
  show ?thesis
    using a C5_bad_status_not_persisted [where data = "example_payload ''done'' ''2024-01-01'' []"
        and trim = ascii_trim and new_Date = example_Date and now = 5
        and fresh = "''000000000000000000000009''" and c = "example_collection 2"]
    by (simp add: example_payload_front example_payload_rest description_ok_def)
qed

text \<open>
  C5 as stated fails on the message: the empty payload has no status, and
  \<open>createProject\<close> rejects it with "Client name is required".
\<close>

theorem C5_earlier_check_wins_counterexample:
  "(map_of [] :: body) ''status'' = None
   \<and> Service_createProject ascii_trim example_Date 5 ''000000000000000000000009'' [] (map_of [])
        = (Inl (ThrowError 400 ''VALIDATION_ERROR'' ''Client name is required''), [])
   \<and> Service_createProject ascii_trim example_Date 5 ''000000000000000000000009'' [] (map_of [])
        \<noteq> (Inl (ThrowError 400 ''VALIDATION_ERROR'' ''Invalid or missing project status''), [])"
  by (simp add: Service_createProject_def Validator_createProject_def Let_def validation_error_def)

section \<open>The fields of a new project\<close>

lemma findOne_append_new:
  "\<not> list_ex (has_id oid) c \<Longrightarrow> has_id oid d \<Longrightarrow> findOne (c @ [d]) oid = Some d"
  by (induction c) (simp_all add: findOne_def)

lemma Service_createProject_success:
  assumes "Service_createProject trim new_Date now fresh c data = (Inr result, c')"
  shows "\<exists>vb. Validator_createProject trim new_Date now data = Inr vb
            \<and> result = vb\<lparr>mongo_id := Some fresh\<rparr>"
    and "c' = c @ [result]"
    and "\<not> list_ex (has_id fresh) c"
proof -
  from assms obtain vb where vb: "Validator_createProject trim new_Date now data = Inr vb"
    by (cases "Validator_createProject trim new_Date now data")
      (simp_all add: Service_createProject_def)
  from Validator_accepts(7) [OF vb] have noid: "mongo_id vb = None"
    by (cases vb) simp
  from assms vb noid have r: "result = vb\<lparr>mongo_id := Some fresh\<rparr>"
    and c: "c' = c @ [result]" and n: "\<not> list_ex (has_id fresh) c"
    by (auto simp: Service_createProject_def Repository_createProject_def insertOne_def Let_def
        split: if_splits)
  from vb r show "\<exists>vb. Validator_createProject trim new_Date now data = Inr vb
            \<and> result = vb\<lparr>mongo_id := Some fresh\<rparr>"
    by blast
  from c show "c' = c @ [result]" .
  from n show "\<not> list_ex (has_id fresh) c" .
qed

lemma findOne_has_id: "findOne c oid = Some d \<Longrightarrow> has_id oid d"
  unfolding findOne_def by (induction c) (auto split: if_splits)

lemma findOne_updateOne_set:
  "findOne c oid = Some d \<Longrightarrow>
   findOne (snd (updateOne_set c oid st now)) oid = Some (d\<lparr>status := st, updatedAt := Some now\<rparr>)"
proof (induction c)
  case Nil
  then show ?case by (simp add: findOne_def)
next
  case (Cons x xs)
  show ?case
  proof (cases "has_id oid x")
    case True
    with Cons.prems show ?thesis
      by (simp add: findOne_def Let_def has_id_def)
  next
    case False
    with Cons show ?thesis
      by (cases "updateOne_set xs oid st now") (simp add: findOne_def)
  qed
qed

lemma Service_updateProjectStatusById_success:
  assumes "ObjectId_new id' = Inr oid"
    and "Service_updateProjectStatusById now others c id' st = (Inr (), c')"
  shows "c' = snd (updateOne_set (others c) oid (str st) now)"
  using assms
  by (cases "updateOne_set (others c) oid (str st) now")
    (auto simp: Service_updateProjectStatusById_def Repository_updateProjectStatusById_def
      ObjectId_isValid_def exists_iff split: if_splits)

text \<open>
  C10: the record that the validator makes of an accepted payload has \<open>clientName\<close>,
  \<open>name\<close>, \<open>status\<close>, \<open>startDate\<close> and \<open>createdAt\<close> (the trimmed texts, the parsed
  start date, the current time), has \<open>description\<close> and \<open>endDate\<close> exactly when the
  payload has them, and has neither an \<open>_id\<close> nor an \<open>updatedAt\<close>. A project that
  \<open>createProject\<close> has created is therefore stored, under the identifier given on
  insertion, without an \<open>updatedAt\<close>; a successful status update sets the field.
\<close>

theorem C10_fields_of_validated_record:
  "(Validator_createProject trim new_Date now data = Inr r \<longrightarrow>
      mongo_id r = None \<and> updatedAt r = None
      \<and> clientName r = trim (str (data ''clientName''))
      \<and> name r = trim (str (data ''name''))
      \<and> status r = str (data ''status'')
      \<and> Date_of new_Date (data ''startDate'') = Some (startDate r)
      \<and> createdAt r = now
      \<and> (description r = None \<longleftrightarrow> data ''description'' = None)
      \<and> (endDate r = None \<longleftrightarrow> data ''endDate'' = None)
      \<and> description r = map_option (\<lambda>v. trim (str (Some v))) (data ''description'')
      \<and> endDate r = (case data ''endDate'' of None \<Rightarrow> None | Some e \<Rightarrow> new_Date e))
   \<and> (Service_createProject trim new_Date now fresh c data = (Inr result, c') \<longrightarrow>
        c' = c @ [result] \<and> mongo_id result = Some fresh
        \<and> findOne c' fresh = Some result \<and> updatedAt result = None)
   \<and> (ObjectId_new id' = Inr oid \<and> findOne c oid = Some d
        \<and> Service_updateProjectStatusById now' id c id' st = (Inr (), c'') \<longrightarrow>
        findOne c'' oid = Some (d\<lparr>status := str st, updatedAt := Some now'\<rparr>))"
proof (intro conjI impI)
  assume v: "Validator_createProject trim new_Date now data = Inr r"
  note shape = Validator_accepts(7) [OF v]
  from shape show "mongo_id r = None" by (cases r) simp
  from shape show "updatedAt r = None" by (cases r) simp
  from shape show "clientName r = trim (str (data ''clientName''))" by (cases r) simp
  from shape show "name r = trim (str (data ''name''))" by (cases r) simp
  from shape show "status r = str (data ''status'')" by (cases r) simp
  from Validator_accepts(6) [OF v]
  show "Date_of new_Date (data ''startDate'') = Some (startDate r)" .
  from shape show "createdAt r = now" by (cases r) simp
  from shape show d: "description r = map_option (\<lambda>v. trim (str (Some v))) (data ''description'')"
    by (cases r) simp
  from d show "description r = None \<longleftrightarrow> data ''description'' = None" by simp
  from Validator_accepts(10) [OF v] show "endDate r = None \<longleftrightarrow> data ''endDate'' = None" .
  from Validator_accepts(8) [OF v]
  show "endDate r = (case data ''endDate'' of None \<Rightarrow> None | Some e \<Rightarrow> new_Date e)" .
next
  assume s: "Service_createProject trim new_Date now fresh c data = (Inr result, c')"
  from Service_createProject_success(1) [OF s] obtain vb
    where vb: "Validator_createProject trim new_Date now data = Inr vb"
      and r: "result = vb\<lparr>mongo_id := Some fresh\<rparr>"
    by blast
  from Service_createProject_success(2) [OF s] show c': "c' = c @ [result]" .
  from r show i: "mongo_id result = Some fresh" by simp
  from Service_createProject_success(3) [OF s] i c'
  show "findOne c' fresh = Some result"
    by (simp add: findOne_append_new has_id_def)
  from Validator_accepts(7) [OF vb] have "updatedAt vb = None" by (cases vb) simp
  with r show "updatedAt result = None" by simp
next
  assume h: "ObjectId_new id' = Inr oid \<and> findOne c oid = Some d
        \<and> Service_updateProjectStatusById now' id c id' st = (Inr (), c'')"
  then have "c'' = snd (updateOne_set c oid (str st) now')"
    using Service_updateProjectStatusById_success [of id' oid now' id c st c''] by simp
  with h show "findOne c'' oid = Some (d\<lparr>status := str st, updatedAt := Some now'\<rparr>)"
    by (simp add: findOne_updateOne_set)
qed

text \<open>
  The theorem of C10 on a payload with neither description nor end date: the record the
  validator makes of it, the project created from it in a collection of two, and the
  status update of that project.
\<close>

theorem C10_fields_of_validated_record_witness:
  "Validator_createProject ascii_trim example_Date 5 (example_payload ''active'' ''2024-01-01'' [])
     = Inr \<lparr>mongo_id = None, name = ''Site'', clientName = ''Acme'', status = ''active'',
            description = None, startDate = 1704067200000, endDate = None, createdAt = 5,
            updatedAt = None\<rparr>
   \<and> Service_createProject ascii_trim example_Date 5 ''000000000000000000000009'' (example_collection 2)
        (example_payload ''active'' ''2024-01-01'' [])
     = (Inr \<lparr>mongo_id = Some ''000000000000000000000009'', name = ''Site'',
             clientName = ''Acme'', status = ''active'', description = None,
             startDate = 1704067200000, endDate = None, createdAt = 5, updatedAt = None\<rparr>,
        example_collection 2 @
          [\<lparr>mongo_id = Some ''000000000000000000000009'', name = ''Site'',
             clientName = ''Acme'', status = ''active'', description = None,
             startDate = 1704067200000, endDate = None, createdAt = 5, updatedAt = None\<rparr>])
   \<and> findOne (example_collection 2 @
          [\<lparr>mongo_id = Some ''000000000000000000000009'', name = ''Site'',
             clientName = ''Acme'', status = ''active'', description = None,
             startDate = 1704067200000, endDate = None, createdAt = 5, updatedAt = None\<rparr>])
        ''000000000000000000000009''
     = Some \<lparr>mongo_id = Some ''000000000000000000000009'', name = ''Site'',
             clientName = ''Acme'', status = ''active'', description = None,
             startDate = 1704067200000, endDate = None, createdAt = 5, updatedAt = None\<rparr>
   \<and> ObjectId_new ''000000000000000000000001'' = Inr ''000000000000000000000001''
   \<and> findOne (example_collection 2) ''000000000000000000000001''
        = Some (example_project ''000000000000000000000001'' 1)
   \<and> Service_updateProjectStatusById 99 id (example_collection 2) ''000000000000000000000001''
        (Some (JStr ''completed''))
        = (Inr (), [example_project ''000000000000000000000000'' 0,
                    (example_project ''000000000000000000000001'' 1)
                      \<lparr>status := ''completed'', updatedAt := Some 99\<rparr>])
   \<and> findOne [example_project ''000000000000000000000000'' 0,
               (example_project ''000000000000000000000001'' 1)
                 \<lparr>status := ''completed'', updatedAt := Some 99\<rparr>]
        ''000000000000000000000001''
        = Some ((example_project ''000000000000000000000001'' 1)
                  \<lparr>status := ''completed'', updatedAt := Some 99\<rparr>)"
proof -
  let ?p = "example_payload ''active'' ''2024-01-01'' []"
  let ?r = "\<lparr>mongo_id = None, name = ''Site'', clientName = ''Acme'', status = ''active'',
            description = None, startDate = 1704067200000, endDate = None, createdAt = 5,
            updatedAt = None\<rparr>"
  let ?i = "''000000000000000000000001''"
  let ?c2 = "[example_project ''000000000000000000000000'' 0,
              (example_project ''000000000000000000000001'' 1)
                \<lparr>status := ''completed'', updatedAt := Some 99\<rparr>]"
  have v: "Validator_createProject ascii_trim example_Date 5 ?p = Inr ?r"
    by (simp add: Validator_createProject_def Let_def example_payload_def example_Date_def
        Date_of_def ascii_trim_def is_ws_def ALLOWED_STATUSES_def)
  have s: "Service_createProject ascii_trim example_Date 5 ''000000000000000000000009'' (example_collection 2) ?p
      = (Inr (?r\<lparr>mongo_id := Some ''000000000000000000000009''\<rparr>),
         example_collection 2 @ [?r\<lparr>mongo_id := Some ''000000000000000000000009''\<rparr>])"
    by (simp add: Service_createProject_def v Repository_createProject_def insertOne_def Let_def
        example_collection_2 example_project_def has_id_def)
  have a: "ObjectId_new ?i = Inr ?i"
    by (simp add: ObjectId_new_def is_hex_def hex_lower_def)
  have f: "findOne (example_collection 2) ?i = Some (example_project ?i 1)"
    by (simp add: example_collection_2 example_project_def has_id_def findOne_def)
  have u: "Service_updateProjectStatusById 99 id (example_collection 2) ?i (Some (JStr ''completed''))
      = (Inr (), ?c2)"
    by (simp add: Service_updateProjectStatusById_def ObjectId_isValid_def a exists_iff
        Repository_updateProjectStatusById_def ALLOWED_STATUSES_def
        example_collection_2 example_project_def has_id_def)
  note t1 = C10_fields_of_validated_record
    [where trim = ascii_trim and new_Date = example_Date and now = 5 and data = ?p and r = ?r
      and fresh = "''000000000000000000000009''" and c = "example_collection 2"
      and result = "?r\<lparr>mongo_id := Some ''000000000000000000000009''\<rparr>"
      and c' = "example_collection 2 @ [?r\<lparr>mongo_id := Some ''000000000000000000000009''\<rparr>]"
      and id' = ?i and oid = ?i and d = "example_project ?i 1" and now' = 99
      and st = "Some (JStr ''completed'')" and c'' = ?c2]
  from t1 s
  have k1: "findOne (example_collection 2 @ [?r\<lparr>mongo_id := Some ''000000000000000000000009''\<rparr>])
      ''000000000000000000000009'' = Some (?r\<lparr>mongo_id := Some ''000000000000000000000009''\<rparr>)"
    by blast
  from t1 a f u
  have k2: "findOne ?c2 ?i
      = Some ((example_project ?i 1)\<lparr>status := str (Some (JStr ''completed'')), updatedAt := Some 99\<rparr>)"
    by blast
  from v s a f u k1 k2 show ?thesis
    by simp
qed


section \<open>Listing: pagination\<close>

lemma Math_ceil_div_ceiling:
  assumes "l \<noteq> 0"
  shows "Math_ceil_div t l = Some \<lceil>real_of_int t / real_of_int l\<rceil>"
proof -
  have "\<lceil>real_of_int t / real_of_int l\<rceil> = - \<lfloor>- (real_of_int t / real_of_int l)\<rfloor>"
    by (simp add: ceiling_def)
  also have "- (real_of_int t / real_of_int l) = real_of_int (- t) / real_of_int l"
    by simp
  also have "\<lfloor>real_of_int (- t) / real_of_int l\<rfloor> = (- t) div l"
    by (rule floor_divide_of_int_eq)
  finally show ?thesis using assms by (simp add: Math_ceil_div_def)
qed

lemma param_defaults:
  "query_page q = None \<or> (\<exists>s. query_page q = Some s \<and> Number_of s = NaN) \<Longrightarrow>
     page_param Number_of q = 1"
  "query_limit q = None \<or> (\<exists>s. query_limit q = Some s \<and> Number_of s = NaN) \<Longrightarrow>
     limit_param Number_of q = 10"
  by (auto simp: page_param_def limit_param_def Number_query_def or_default_def)

lemma Controller_listProjects_calls:
  "Controller_listProjects Number_of regex c q
     = respond (Service_listProjects regex c (page_param Number_of q) (limit_param Number_of q)
                  (query_status q) (query_search q) (query_sort q))"
  by (simp add: Controller_listProjects_def)

text \<open>What a list call returns when it returns, and when it does.\<close>

lemma Service_listProjects_Inr:
  assumes "Service_listProjects regex c p l st se so = Inr r"
  shows "\<exists>sopt m. sort_option_of so = Inr sopt
           \<and> find_filter regex (filter_of st se) = Some m
           \<and> 0 \<le> (p - 1) * l
           \<and> res_data r
               = map to_item (cursor_limit l (drop (nat ((p - 1) * l)) (cursor_sort sopt (filter m c))))
           \<and> res_pagination r
               = \<lparr>pg_total = int (length (filter m c)), pg_page = p, pg_limit = l,
                  pg_totalPages = Math_ceil_div (int (length (filter m c))) l\<rparr>"
  using assms
  by (auto simp: Service_listProjects_def Repository_listProjects_def cursor_skip_def Let_def
      split: sum.splits option.splits if_splits)

lemma Service_listProjects_returns:
  assumes "sort_option_of so = Inr sopt"
    and "find_filter regex (filter_of st se) = Some m"
    and "0 \<le> (p - 1) * l"
  shows "Service_listProjects regex c p l st se so
           = Inr \<lparr>res_data =
                    map to_item (cursor_limit l (drop (nat ((p - 1) * l)) (cursor_sort sopt (filter m c)))),
                  res_pagination =
                    \<lparr>pg_total = int (length (filter m c)), pg_page = p, pg_limit = l,
                     pg_totalPages = Math_ceil_div (int (length (filter m c))) l\<rparr>\<rparr>"
  using assms
  by (simp add: Service_listProjects_def Repository_listProjects_def cursor_skip_def Let_def)

lemma length_cursor_sort: "length (cursor_sort so ds) = length ds"
  by (simp add: cursor_sort_def)

lemma third_page_of_25:
  assumes "sort_option_of so = Inr sopt"
    and "find_filter regex (filter_of st se) = Some m"
    and "length (filter m c) = 25"
  shows "\<exists>r. Service_listProjects regex c 3 10 st se so = Inr r
           \<and> length (res_data r) = 5
           \<and> res_pagination r = \<lparr>pg_total = 25, pg_page = 3, pg_limit = 10, pg_totalPages = Some 3\<rparr>"
  using Service_listProjects_returns [OF assms(1) assms(2), of 3 10 c] assms(3)
  by (simp add: cursor_limit_def length_cursor_sort Math_ceil_div_def)

text \<open>
  C6: the controller takes page 1 and limit 10 when the query parameter is absent or its
  text is not numeric, and calls the service with these values. A list call that returns
  has skipped \<open>(page - 1) * limit\<close> of the matching documents in sort order (a number
  that is then not negative) and reports \<open>total\<close>, \<open>page\<close>, \<open>limit\<close> and
  \<open>totalPages\<close>, the ceiling of \<open>total / limit\<close>. With 25 matching documents, limit 10
  and page 3 the call returns 5 items and \<open>totalPages\<close> 3.
\<close>

theorem C6_pagination:
  "(query_page q = None \<or> (\<exists>s. query_page q = Some s \<and> Number_of s = NaN) \<longrightarrow>
      page_param Number_of q = 1)
   \<and> (query_limit q = None \<or> (\<exists>s. query_limit q = Some s \<and> Number_of s = NaN) \<longrightarrow>
      limit_param Number_of q = 10)
   \<and> Controller_listProjects Number_of regex c q
       = respond (Service_listProjects regex c (page_param Number_of q) (limit_param Number_of q)
                    (query_status q) (query_search q) (query_sort q))
   \<and> (Service_listProjects regex c p l st se so = Inr r \<longrightarrow>
        (\<exists>sopt m. sort_option_of so = Inr sopt
           \<and> find_filter regex (filter_of st se) = Some m
           \<and> 0 \<le> (p - 1) * l
           \<and> res_data r
               = map to_item (cursor_limit l (drop (nat ((p - 1) * l)) (cursor_sort sopt (filter m c))))
           \<and> res_pagination r
               = \<lparr>pg_total = int (length (filter m c)), pg_page = p, pg_limit = l,
                  pg_totalPages = Math_ceil_div (int (length (filter m c))) l\<rparr>))
   \<and> (l \<noteq> 0 \<longrightarrow> Math_ceil_div t l = Some \<lceil>real_of_int t / real_of_int l\<rceil>)
   \<and> (sort_option_of so = Inr sopt' \<and> find_filter regex (filter_of st se) = Some m'
        \<and> length (filter m' c) = 25 \<longrightarrow>
        (\<exists>r. Service_listProjects regex c 3 10 st se so = Inr r
           \<and> length (res_data r) = 5
           \<and> res_pagination r
               = \<lparr>pg_total = 25, pg_page = 3, pg_limit = 10, pg_totalPages = Some 3\<rparr>))"
proof (intro conjI impI)
  assume "query_page q = None \<or> (\<exists>s. query_page q = Some s \<and> Number_of s = NaN)"
  then show "page_param Number_of q = 1" by (rule param_defaults(1))
next
  assume "query_limit q = None \<or> (\<exists>s. query_limit q = Some s \<and> Number_of s = NaN)"
  then show "limit_param Number_of q = 10" by (rule param_defaults(2))
next
  show "Controller_listProjects Number_of regex c q
       = respond (Service_listProjects regex c (page_param Number_of q) (limit_param Number_of q)
                    (query_status q) (query_search q) (query_sort q))"
    by (rule Controller_listProjects_calls)
next
  assume "Service_listProjects regex c p l st se so = Inr r"
  then show "\<exists>sopt m. sort_option_of so = Inr sopt
           \<and> find_filter regex (filter_of st se) = Some m
           \<and> 0 \<le> (p - 1) * l
           \<and> res_data r
               = map to_item (cursor_limit l (drop (nat ((p - 1) * l)) (cursor_sort sopt (filter m c))))
           \<and> res_pagination r
               = \<lparr>pg_total = int (length (filter m c)), pg_page = p, pg_limit = l,
                  pg_totalPages = Math_ceil_div (int (length (filter m c))) l\<rparr>"
    by (rule Service_listProjects_Inr)
next
  assume "l \<noteq> 0"
  then show "Math_ceil_div t l = Some \<lceil>real_of_int t / real_of_int l\<rceil>"
    by (rule Math_ceil_div_ceiling)
next
  assume "sort_option_of so = Inr sopt' \<and> find_filter regex (filter_of st se) = Some m'
        \<and> length (filter m' c) = 25"
  then show "\<exists>r. Service_listProjects regex c 3 10 st se so = Inr r
           \<and> length (res_data r) = 5
           \<and> res_pagination r
               = \<lparr>pg_total = 25, pg_page = 3, pg_limit = 10, pg_totalPages = Some 3\<rparr>"
    using third_page_of_25 [of so sopt' regex st se m' c] by blast
qed

lemma decimal_Number_values:
  "decimal_Number ''abc'' = NaN"
  "decimal_Number ''0'' = Num 0"
  "decimal_Number ''3'' = Num 3"
  "decimal_Number ''-2'' = Num (- 2)"
  "decimal_Number ''-5'' = Num (- 5)"
  by (simp_all add: decimal_Number_def is_digit_def digits_value_def)

lemma length_example_collection: "length (example_collection n) = n"
  by (simp add: example_collection_def)

text \<open>
  The theorem of C6 on a request without page whose limit is the text \<open>abc\<close>, and on
  page 3 with limit 10 of a collection of 25 projects.
\<close>

theorem C6_pagination_witness:
  "query_page \<lparr>query_page = None, query_limit = Some ''abc'', query_status = None,
                query_search = None, query_sort = None\<rparr> = None
   \<and> query_limit \<lparr>query_page = None, query_limit = Some ''abc'', query_status = None,
                query_search = None, query_sort = None\<rparr> = Some ''abc''
   \<and> decimal_Number ''abc'' = NaN
   \<and> page_param decimal_Number
        \<lparr>query_page = None, query_limit = Some ''abc'', query_status = None,
         query_search = None, query_sort = None\<rparr> = 1
   \<and> limit_param decimal_Number
        \<lparr>query_page = None, query_limit = Some ''abc'', query_status = None,
         query_search = None, query_sort = None\<rparr> = 10
   \<and> sort_option_of None = Inr (''createdAt'', - 1)
   \<and> (\<exists>m. find_filter no_regex (filter_of None None) = Some m
          \<and> length (filter m (example_collection 25)) = 25)
   \<and> (\<exists>r. Service_listProjects no_regex (example_collection 25) 3 10 None None None = Inr r
          \<and> length (res_data r) = 5
          \<and> res_pagination r
              = \<lparr>pg_total = 25, pg_page = 3, pg_limit = 10, pg_totalPages = Some 3\<rparr>)
   \<and> (10::int) \<noteq> 0
   \<and> Math_ceil_div 25 10 = Some \<lceil>real_of_int 25 / real_of_int 10\<rceil>"
proof -
  let ?q = "\<lparr>query_page = None, query_limit = Some ''abc'', query_status = None,
             query_search = None, query_sort = None\<rparr>"
  have so: "sort_option_of None = Inr (''createdAt'', - 1)"
    by (simp add: sort_option_of_def truthy_string_def)
  have ff: "find_filter no_regex (filter_of None None) = Some (\<lambda>d. True)"
    by (simp add: find_filter_def filter_of_def truthy_string_def)
  have len: "length (filter (\<lambda>d. True) (example_collection 25)) = 25"
    by (simp add: length_example_collection)
  note t = C6_pagination [of ?q decimal_Number no_regex "example_collection 25" 3 10 None None None
      _ 25 "(''createdAt'', - 1)" "\<lambda>d. True"]
  from t have a: "page_param decimal_Number ?q = 1"
    by simp
  from t have b: "limit_param decimal_Number ?q = 10"
    by (simp add: decimal_Number_values)
  from t so ff len
  have c: "\<exists>r. Service_listProjects no_regex (example_collection 25) 3 10 None None None = Inr r
          \<and> length (res_data r) = 5
          \<and> res_pagination r
              = \<lparr>pg_total = 25, pg_page = 3, pg_limit = 10, pg_totalPages = Some 3\<rparr>"
    by blast
  from t have d: "Math_ceil_div 25 10 = Some \<lceil>real_of_int 25 / real_of_int 10\<rceil>"
    by simp
  from ff len have e: "\<exists>m. find_filter no_regex (filter_of None None) = Some m
          \<and> length (filter m (example_collection 25)) = 25"
    by blast
  from a b c d e so show ?thesis
    by (simp add: decimal_Number_values)
qed

section \<open>Listing: zero and negative page or limit\<close>

text \<open>The store refuses the query of a list call whose skip is negative.\<close>

lemma Service_listProjects_negative_skip:
  assumes "sort_option_of so = Inr sopt"
    and "find_filter regex (filter_of st se) = Some m"
    and "(p - 1) * l < 0"
  shows "Service_listProjects regex c p l st se so = Inl MongoServerError"
  using assms
  by (simp add: Service_listProjects_def Repository_listProjects_def cursor_skip_def Let_def)

lemma Service_listProjects_fault_iff:
  assumes "sort_option_of so = Inr sopt"
    and "find_filter regex (filter_of st se) = Some m"
  shows "Service_listProjects regex c p l st se so = Inl MongoServerError \<longleftrightarrow> (p - 1) * l < 0"
proof (cases "(p - 1) * l < 0")
  case True
  then show ?thesis using Service_listProjects_negative_skip [OF assms] by simp
next
  case False
  then have "0 \<le> (p - 1) * l" by simp
  from Service_listProjects_returns [OF assms this] False show ?thesis by simp
qed

text \<open>
  C8, as the code has it: in the controller a page or limit whose numeric value is 0 is
  replaced by the default, 1 or 10, exactly as an absent parameter is; a negative value is
  kept and reaches the service unchanged. The skip \<open>(page - 1) * limit\<close> that the service
  hands to the store is negative, and the store then refuses the query, when the page is
  negative and the limit positive, or the page above 1 and the limit negative. When page
  and limit are both negative the skip is positive and the call returns the documents
  after the skipped ones.
\<close>

theorem C8_zero_and_negative_parameters:
  "(query_page q = Some s \<and> Number_of s = Num 0 \<longrightarrow>
      page_param Number_of q = 1
      \<and> page_param Number_of q = page_param Number_of (q\<lparr>query_page := None\<rparr>))
   \<and> (query_limit q = Some s' \<and> Number_of s' = Num 0 \<longrightarrow>
      limit_param Number_of q = 10
      \<and> limit_param Number_of q = limit_param Number_of (q\<lparr>query_limit := None\<rparr>))
   \<and> (query_page q = Some s \<and> Number_of s = Num k \<and> k < 0 \<longrightarrow> page_param Number_of q = k)
   \<and> (query_limit q = Some s' \<and> Number_of s' = Num k' \<and> k' < 0 \<longrightarrow> limit_param Number_of q = k')
   \<and> Controller_listProjects Number_of regex c q
       = respond (Service_listProjects regex c (page_param Number_of q) (limit_param Number_of q)
                    (query_status q) (query_search q) (query_sort q))
   \<and> (sort_option_of so = Inr sopt \<and> find_filter regex (filter_of st se) = Some m \<longrightarrow>
        (Service_listProjects regex c p l st se so = Inl MongoServerError \<longleftrightarrow> (p - 1) * l < 0)
      \<and> (p < 0 \<and> 0 < l \<longrightarrow> Service_listProjects regex c p l st se so = Inl MongoServerError)
      \<and> (1 < p \<and> l < 0 \<longrightarrow> Service_listProjects regex c p l st se so = Inl MongoServerError)
      \<and> (p < 0 \<and> l < 0 \<longrightarrow>
            0 < (p - 1) * l
          \<and> Service_listProjects regex c p l st se so
              = Inr \<lparr>res_data =
                       map to_item
                         (cursor_limit l (drop (nat ((p - 1) * l)) (cursor_sort sopt (filter m c)))),
                     res_pagination =
                       \<lparr>pg_total = int (length (filter m c)), pg_page = p, pg_limit = l,
                        pg_totalPages = Math_ceil_div (int (length (filter m c))) l\<rparr>\<rparr>))"
proof (intro conjI impI)
  assume "query_page q = Some s \<and> Number_of s = Num 0"
  then show "page_param Number_of q = 1"
    and "page_param Number_of q = page_param Number_of (q\<lparr>query_page := None\<rparr>)"
    by (simp_all add: page_param_def Number_query_def or_default_def)
next
  assume "query_limit q = Some s' \<and> Number_of s' = Num 0"
  then show "limit_param Number_of q = 10"
    and "limit_param Number_of q = limit_param Number_of (q\<lparr>query_limit := None\<rparr>)"
    by (simp_all add: limit_param_def Number_query_def or_default_def)
next
  assume "query_page q = Some s \<and> Number_of s = Num k \<and> k < 0"
  then show "page_param Number_of q = k"
    by (simp add: page_param_def Number_query_def or_default_def)
next
  assume "query_limit q = Some s' \<and> Number_of s' = Num k' \<and> k' < 0"
  then show "limit_param Number_of q = k'"
    by (simp add: limit_param_def Number_query_def or_default_def)
next
  show "Controller_listProjects Number_of regex c q
       = respond (Service_listProjects regex c (page_param Number_of q) (limit_param Number_of q)
                    (query_status q) (query_search q) (query_sort q))"
    by (rule Controller_listProjects_calls)
next
  assume h: "sort_option_of so = Inr sopt \<and> find_filter regex (filter_of st se) = Some m"
  then have so: "sort_option_of so = Inr sopt"
    and ff: "find_filter regex (filter_of st se) = Some m"
    by blast+
  show "Service_listProjects regex c p l st se so = Inl MongoServerError \<longleftrightarrow> (p - 1) * l < 0"
    by (rule Service_listProjects_fault_iff [OF so ff])
  {
    assume "p < 0 \<and> 0 < l"
    then have "(p - 1) * l < 0" by (simp add: mult_less_0_iff)
    then show "Service_listProjects regex c p l st se so = Inl MongoServerError"
      by (rule Service_listProjects_negative_skip [OF so ff])
  }
  {
    assume "1 < p \<and> l < 0"
    then have "(p - 1) * l < 0" by (simp add: mult_less_0_iff)
    then show "Service_listProjects regex c p l st se so = Inl MongoServerError"
      by (rule Service_listProjects_negative_skip [OF so ff])
  }
  {
    assume "p < 0 \<and> l < 0"
    then show pos: "0 < (p - 1) * l" by (simp add: zero_less_mult_iff)
    then have "0 \<le> (p - 1) * l" by simp
    then show "Service_listProjects regex c p l st se so
              = Inr \<lparr>res_data =
                       map to_item
                         (cursor_limit l (drop (nat ((p - 1) * l)) (cursor_sort sopt (filter m c)))),
                     res_pagination =
                       \<lparr>pg_total = int (length (filter m c)), pg_page = p, pg_limit = l,
                        pg_totalPages = Math_ceil_div (int (length (filter m c))) l\<rparr>\<rparr>"
      by (rule Service_listProjects_returns [OF so ff])
  }
qed

text \<open>
  The theorem of C8 on the requests \<open>page=0&limit=0\<close> and \<open>page=-2&limit=3\<close>, and on the
  service called with page -2 and limit 3, with page 2 and limit -5, and with page -2 and
  limit -5.
\<close>

theorem C8_zero_and_negative_parameters_witness:
  "decimal_Number ''0'' = Num 0 \<and> decimal_Number ''-2'' = Num (- 2)
   \<and> decimal_Number ''3'' = Num 3
   \<and> page_param decimal_Number
        \<lparr>query_page = Some ''0'', query_limit = Some ''0'', query_status = None,
         query_search = None, query_sort = None\<rparr> = 1
   \<and> limit_param decimal_Number
        \<lparr>query_page = Some ''0'', query_limit = Some ''0'', query_status = None,
         query_search = None, query_sort = None\<rparr> = 10
   \<and> page_param decimal_Number
        \<lparr>query_page = Some ''-2'', query_limit = Some ''3'', query_status = None,
         query_search = None, query_sort = None\<rparr> = - 2
   \<and> limit_param decimal_Number
        \<lparr>query_page = Some ''-2'', query_limit = Some ''3'', query_status = None,
         query_search = None, query_sort = None\<rparr> = 3
   \<and> sort_option_of None = Inr (''createdAt'', - 1)
   \<and> (\<exists>m. find_filter no_regex (filter_of None None) = Some m)
   \<and> Service_listProjects no_regex (example_collection 2) (- 2) 3 None None None
       = Inl MongoServerError
   \<and> Service_listProjects no_regex (example_collection 2) 2 (- 5) None None None
       = Inl MongoServerError
   \<and> (\<exists>r. Service_listProjects no_regex (example_collection 2) (- 2) (- 5) None None None = Inr r)
   \<and> Controller_listProjects decimal_Number no_regex (example_collection 2)
        \<lparr>query_page = Some ''-2'', query_limit = Some ''3'', query_status = None,
         query_search = None, query_sort = None\<rparr>
       = sendError_500 MongoServerError"
proof -
  let ?q0 = "\<lparr>query_page = Some ''0'', query_limit = Some ''0'', query_status = None,
              query_search = None, query_sort = None\<rparr>"
  let ?q2 = "\<lparr>query_page = Some ''-2'', query_limit = Some ''3'', query_status = None,
              query_search = None, query_sort = None\<rparr>"
  have so: "sort_option_of None = Inr (''createdAt'', - 1)"
    by (simp add: sort_option_of_def truthy_string_def)
  have ff: "find_filter no_regex (filter_of None None) = Some (\<lambda>d. True)"
    by (simp add: find_filter_def filter_of_def truthy_string_def)
  note t0 = C8_zero_and_negative_parameters [where q = ?q0 and s = "''0''" and s' = "''0''"
      and Number_of = decimal_Number and k = 0 and k' = 0 and regex = no_regex
      and c = "example_collection 2" and so = None and st = None and se = None
      and sopt = "(''createdAt'', - 1)" and m = "\<lambda>d. True" and p = "- 2" and l = 3]
  note t1 = C8_zero_and_negative_parameters [where q = ?q2 and s = "''-2''" and s' = "''3''"
      and Number_of = decimal_Number and k = "- 2" and k' = 0 and regex = no_regex
      and c = "example_collection 2" and so = None and st = None and se = None
      and sopt = "(''createdAt'', - 1)" and m = "\<lambda>d. True" and p = 2 and l = "- 5"]
  note t2 = C8_zero_and_negative_parameters [where q = ?q2 and s = "''-2''" and s' = "''3''"
      and Number_of = decimal_Number and k = "- 2" and k' = 0 and regex = no_regex
      and c = "example_collection 2" and so = None and st = None and se = None
      and sopt = "(''createdAt'', - 1)" and m = "\<lambda>d. True" and p = "- 2" and l = "- 5"]
  from t0 have a: "page_param decimal_Number ?q0 = 1" "limit_param decimal_Number ?q0 = 10"
    by (simp_all add: decimal_Number_values)
  from t1 have b: "page_param decimal_Number ?q2 = - 2"
    by (simp add: decimal_Number_values)
  have b': "limit_param decimal_Number ?q2 = 3"
    by (simp add: limit_param_def Number_query_def or_default_def decimal_Number_values)
  from t0 so ff
  have c: "Service_listProjects no_regex (example_collection 2) (- 2) 3 None None None
      = Inl MongoServerError"
    by simp
  from t1 so ff
  have d: "Service_listProjects no_regex (example_collection 2) 2 (- 5) None None None
      = Inl MongoServerError"
    by simp
  from t2 so ff
  have e: "\<exists>r. Service_listProjects no_regex (example_collection 2) (- 2) (- 5) None None None = Inr r"
    by simp
  from t1 b b' c
  have f: "Controller_listProjects decimal_Number no_regex (example_collection 2) ?q2
      = sendError_500 MongoServerError"
    by (simp add: respond_def)
  from ff have g: "\<exists>m. find_filter no_regex (filter_of None None) = Some m"
    by blast
  from a b b' c d e f g so show ?thesis
    by (simp add: decimal_Number_values)
qed

text \<open>
  C8 as stated fails on the sign of the skip: for the request \<open>page=-2&limit=-5\<close> both
  negative values reach the service, the skip is 15, and the call answers 200 with the
  two documents that follow the first fifteen of a collection of seventeen.
\<close>

theorem C8_negative_page_and_limit_counterexample:
  "page_param decimal_Number
        \<lparr>query_page = Some ''-2'', query_limit = Some ''-5'', query_status = None,
         query_search = None, query_sort = None\<rparr> = - 2
   \<and> limit_param decimal_Number
        \<lparr>query_page = Some ''-2'', query_limit = Some ''-5'', query_status = None,
         query_search = None, query_sort = None\<rparr> = - 5
   \<and> ((- 2 :: int) - 1) * (- 5) = 15
   \<and> Controller_listProjects decimal_Number no_regex (example_collection 17)
        \<lparr>query_page = Some ''-2'', query_limit = Some ''-5'', query_status = None,
         query_search = None, query_sort = None\<rparr>
       = sendSuccess 200 ''Projects List'' ''Data fetched successfully''
           \<lparr>res_data = [to_item (example_project ''000000000000000000000001'' 1),
                        to_item (example_project ''000000000000000000000000'' 0)],
            res_pagination =
              \<lparr>pg_total = 17, pg_page = - 2, pg_limit = - 5, pg_totalPages = Some (- 3)\<rparr>\<rparr>"
  by code_simp

section \<open>Listing: the sort token\<close>

text \<open>The default order, the rejection of a field that is not allowed, and the order of the result.\<close>

lemma sort_option_of_absent: "sort_option_of None = Inr (''createdAt'', - 1)"
  by (simp add: sort_option_of_def truthy_string_def)

lemma sort_option_of_rejects:
  "s \<noteq> [] \<Longrightarrow> remove1 (CHR ''-'') s \<notin> set allowedSortFields \<Longrightarrow>
   sort_option_of (Some s)
     = Inl (ThrowError 400 ''Invalid Sort Field'' ''Sorting not allowed on this field'')"
  by (simp add: sort_option_of_def truthy_string_def Let_def)

lemma cursor_sort_sorted:
  "sorted (map (\<lambda>d. snd so * sort_field (fst so) d) (cursor_sort so ds))"
  by (simp add: cursor_sort_def)

text \<open>
  C1 at the sort token \<open>created-At\<close>. The token has no leading \<open>-\<close> and names a field
  that is not sortable, so the call should fail with 400 "Sorting not allowed on this
  field". The service removes the first \<open>-\<close> of the token wherever it stands, takes the
  field for \<open>createdAt\<close>, and returns the first page in ascending \<open>createdAt\<close> order.
\<close>

theorem C1_dash_inside_token_accepted:
  "take 1 ''created-At'' \<noteq> ''-''
   \<and> ''created-At'' \<notin> set allowedSortFields
   \<and> sort_option_of (Some ''created-At'') = Inr (''createdAt'', 1)
   \<and> Service_listProjects regex c 1 10 None None (Some ''created-At'')
       = Inr \<lparr>res_data = map to_item (take 10 (sort_key createdAt c)),
              res_pagination =
                \<lparr>pg_total = int (length c), pg_page = 1, pg_limit = 10,
                 pg_totalPages = Math_ceil_div (int (length c)) 10\<rparr>\<rparr>
   \<and> Service_listProjects regex c 1 10 None None (Some ''created-At'')
       \<noteq> Inl (ThrowError 400 ''Invalid Sort Field'' ''Sorting not allowed on this field'')"
proof -
  have so: "sort_option_of (Some ''created-At'') = Inr (''createdAt'', 1)"
    by (simp add: sort_option_of_def truthy_string_def allowedSortFields_def)
  have ff: "find_filter regex (filter_of None None) = Some (\<lambda>d. True)"
    by (simp add: find_filter_def filter_of_def truthy_string_def)
  have srt: "cursor_sort (''createdAt'', 1) c = sort_key createdAt c"
    by (simp add: cursor_sort_def sort_field_def)
  have "Service_listProjects regex c 1 10 None None (Some ''created-At'')
       = Inr \<lparr>res_data = map to_item (take 10 (sort_key createdAt c)),
              res_pagination =
                \<lparr>pg_total = int (length c), pg_page = 1, pg_limit = 10,
                 pg_totalPages = Math_ceil_div (int (length c)) 10\<rparr>\<rparr>"
    using Service_listProjects_returns [OF so ff, of 1 10 c]
    by (simp add: cursor_limit_def srt)
  with so show ?thesis
    by (simp add: allowedSortFields_def)
qed

end
